theory Spec2Isabelle
  imports Complex_Main
begin

section \<open>GoCardless webhook endpoint: values, errors and the outside world\<close>

text \<open>
  The module \<^verbatim>\<open>payments/payment_gateways/doctype/gocardless_settings/__init__.py\<close>
  receives a webhook request, checks its signature against the configured secrets,
  decodes the batch of events and routes each event to one of three handlers.
  Python values that come out of \<^verbatim>\<open>json.loads\<close> are modelled by \<open>json\<close>; a
  dictionary is the list of its items (keys distinct, looked up with \<open>map_of\<close>).
  JSON numbers with a fraction do not occur in the events the handlers read and are
  left out. A \<open>string\<close> is a list of 8-bit characters: a byte string, or a text whose
  code points are below 256 (a request header decoded as Latin-1).
\<close>

datatype json =
    JNull
  | JBool bool
  | JInt int
  | JStr string
  | JList "json list"
  | JObj "(string \<times> json) list"

text \<open>
  Exceptions are values. Every constructor is a subclass of Python's \<^verbatim>\<open>Exception\<close>
  (so \<^verbatim>\<open>except Exception\<close> catches each of them); \<open>OtherError\<close> stands for any
  other exception of a collaborator, named by its message.
\<close>

datatype py_error =
    KeyError
  | TypeError
  | AttributeError
  | ValueError
  | AuthenticationError
  | DoesNotExistError
  | ValidationError
  | OtherError string

text \<open>Python truthiness (\<^verbatim>\<open>if x:\<close>, \<^verbatim>\<open>x or []\<close>).\<close>

fun truthy :: "json \<Rightarrow> bool" where
  "truthy JNull = False"
| "truthy (JBool b) = b"
| "truthy (JInt i) = (i \<noteq> 0)"
| "truthy (JStr s) = (s \<noteq> [])"
| "truthy (JList xs) = (xs \<noteq> [])"
| "truthy (JObj kvs) = (kvs \<noteq> [])"

text \<open>
  \<^verbatim>\<open>d.get(k, default)\<close>: only a dictionary has the method; on any other value the
  attribute lookup raises \<^verbatim>\<open>AttributeError\<close>.
\<close>

fun dict_get :: "json \<Rightarrow> string \<Rightarrow> json \<Rightarrow> py_error + json" where
  "dict_get (JObj kvs) k dflt = Inr (case map_of kvs k of Some v \<Rightarrow> v | None \<Rightarrow> dflt)"
| "dict_get _ k dflt = Inl AttributeError"

text \<open>
  \<^verbatim>\<open>d[k]\<close> with a string key: a dictionary without the key raises \<^verbatim>\<open>KeyError\<close>;
  a list or a string wants an integer index, and \<^verbatim>\<open>None\<close>, a boolean or a number is
  not subscriptable: both are \<^verbatim>\<open>TypeError\<close>.
\<close>

fun subscript :: "json \<Rightarrow> string \<Rightarrow> py_error + json" where
  "subscript (JObj kvs) k = (case map_of kvs k of Some v \<Rightarrow> Inr v | None \<Rightarrow> Inl KeyError)"
| "subscript _ k = Inl TypeError"

text \<open>
  \<^verbatim>\<open>for x in v\<close>: a list yields its elements, a dictionary its keys, a string its
  characters; anything else is not iterable.
\<close>

fun iterate :: "json \<Rightarrow> py_error + json list" where
  "iterate (JList xs) = Inr xs"
| "iterate (JObj kvs) = Inr (map (\<lambda>kv. JStr (fst kv)) kvs)"
| "iterate (JStr s) = Inr (map (\<lambda>c. JStr [c]) s)"
| "iterate _ = Inl TypeError"

text \<open>
  Text built by string formatting is kept as its pieces: a literal, or \<^verbatim>\<open>str(v)\<close> of a
  decoded value or of an exception. Every \<^verbatim>\<open>+=\<close> of the source appends at least one
  non-empty literal, so a text is the empty string exactly when it has no piece.
\<close>

datatype piece = Lit string | StrOf json | StrOfError py_error

type_synonym pytext = "piece list"

text \<open>
  \<^verbatim>\<open>str.capitalize\<close>: first character upper case, the rest lower case. The case
  mapping is the ASCII one; other characters are left as they are.
\<close>

definition upper_char :: "char \<Rightarrow> char" where
  "upper_char c =
     (case map_of (zip ''abcdefghijklmnopqrstuvwxyz'' ''ABCDEFGHIJKLMNOPQRSTUVWXYZ'') c of
        Some u \<Rightarrow> u | None \<Rightarrow> c)"

definition lower_char :: "char \<Rightarrow> char" where
  "lower_char c =
     (case map_of (zip ''ABCDEFGHIJKLMNOPQRSTUVWXYZ'' ''abcdefghijklmnopqrstuvwxyz'') c of
        Some l \<Rightarrow> l | None \<Rightarrow> c)"

fun capitalize :: "string \<Rightarrow> string" where
  "capitalize [] = []"
| "capitalize (c # cs) = upper_char c # map lower_char cs"

subsection \<open>The request and the record store\<close>

text \<open>
  \<^verbatim>\<open>frappe.request\<close>: the raw body (\<^verbatim>\<open>r.get_data()\<close>) and the header
  \<^verbatim>\<open>Webhook-Signature\<close> (\<^verbatim>\<open>frappe.get_request_header\<close>, \<^verbatim>\<open>None\<close> when the header
  is absent). Outside a request \<^verbatim>\<open>frappe.request\<close> is unbound and falsy: the
  endpoint receives a \<open>request option\<close>.
\<close>

record request =
  get_data :: string
  webhook_signature :: "string option"

record comment =
  comment_type :: string
  comment_text :: pytext
  comment_by :: string
  comment_email :: string

record payment_request =
  status :: string
  failed_reason :: "json option"
  comments :: "comment list"

record je_line =
  account :: "string option"
  debit_in_account_currency :: rat
  debit :: rat
  credit :: rat
  credit_in_account_currency :: rat

record journal_entry =
  voucher_type :: string
  posting_date :: string
  cheque_date :: string
  cheque_no :: string
  accounts :: "je_line list"

datatype effect = SetAsPaid json | SetAsCancelled json

text \<open>
  The state the module reads and writes: the \<^verbatim>\<open>GoCardless Mandate\<close> records (their
  \<^verbatim>\<open>disabled\<close> field), the \<^verbatim>\<open>Payment Request\<close> documents, the calls of the
  documents' own transitions, the journal entries (with their \<^verbatim>\<open>docstatus\<close>: 0 draft,
  1 submitted), the error log, the \<^verbatim>\<open>webhooks_secret\<close> of every \<^verbatim>\<open>GoCardless Settings\<close>
  record, and the cache entry \<^verbatim>\<open>gocardless_webhooks_secret\<close>.
\<close>

record state =
  mandates :: "json \<rightharpoonup> int"
  payment_requests :: "json \<rightharpoonup> payment_request"
  transitions :: "effect list"
  journal_entries :: "(journal_entry \<times> nat) list"
  error_log :: "(string \<times> pytext) list"
  settings_secrets :: "string option list"
  secret_cache :: "string list option"


text \<open>
  What the collaborators answer: the standard library (\<^verbatim>\<open>hmac\<close>, \<^verbatim>\<open>json\<close>,
  \<^verbatim>\<open>dateutil\<close>), the framework's configuration and queries, and the processor's API
  client. A call that may raise returns \<open>py_error + _\<close>. None of them is code of this
  module, so the definitions below take them as a parameter \<open>env\<close>.
  \<^item> \<open>hmac_sha256 env key msg\<close> is the digest
    \<^verbatim>\<open>hmac.new(key.encode("utf-8"), msg, hashlib.sha256).digest()\<close>;
  \<^item> \<open>json_loads\<close> is \<^verbatim>\<open>json.loads\<close>;
  \<^item> \<open>installed_apps\<close> is \<^verbatim>\<open>frappe.get_installed_apps()\<close>;
  \<^item> \<open>has_failed_reason\<close> tells whether the \<^verbatim>\<open>Payment Request\<close> table has the column
    \<^verbatim>\<open>failed_reason\<close>, and \<open>unknown_field_error\<close> is the exception \<^verbatim>\<open>doc.db_set\<close>
    raises when it has not;
  \<^item> the remaining fields are the queries and API calls of the payout handler, in the
    order in which it makes them.
\<close>

record gc_settings =
  settings_name :: string
  fees_account :: "string option"

text \<open>
  A payout of the processor's API. \<open>amount\<close> and \<open>deducted_fees\<close> are integers in minor
  units.
\<close>

record payout =
  amount :: int
  deducted_fees :: int
  created_at :: string
  arrival_date :: string
  reference :: string
  creditor_bank_account :: string

record env =
  hmac_sha256 :: "string \<Rightarrow> string \<Rightarrow> string"
  json_loads :: "string \<Rightarrow> py_error + json"
  installed_apps :: "string list"
  has_failed_reason :: bool
  unknown_field_error :: py_error
  get_last_settings :: "py_error + gc_settings"
  get_payment_gateway :: "string \<Rightarrow> py_error + string option"
  get_payment_account :: "string option \<Rightarrow> py_error + string option"
  initialize_client :: "py_error + unit"
  payouts_get :: "json \<Rightarrow> py_error + payout"
  account_number_ending :: "string \<Rightarrow> py_error + string option"
  get_last_bank_account :: "string \<Rightarrow> py_error + string option"
  parse_date :: "string \<Rightarrow> py_error + string"
  insert_journal_entry :: "journal_entry \<Rightarrow> py_error option"
  submit_journal_entry :: "journal_entry \<Rightarrow> py_error option"

text \<open>Sequencing: the first exception ends the computation.\<close>

fun try_bind :: "py_error + 'a \<Rightarrow> ('a \<Rightarrow> py_error + 'b) \<Rightarrow> py_error + 'b" where
  "try_bind (Inl e) f = Inl e"
| "try_bind (Inr x) f = f x"

text \<open>
  A handler returns the exception it raised, if any, and the state it left behind.
\<close>

type_synonym outcome = "py_error option \<times> state"

fun and_then :: "outcome \<Rightarrow> (state \<Rightarrow> outcome) \<Rightarrow> outcome" where
  "and_then (Some e, s) f = (Some e, s)"
| "and_then (None, s) f = f s"

text \<open>\<^verbatim>\<open>frappe.log_error(title, message)\<close> appends to the error log.\<close>

definition log_error :: "string \<Rightarrow> pytext \<Rightarrow> state \<Rightarrow> state" where
  "log_error title message s = s\<lparr>error_log := error_log s @ [(title, message)]\<rparr>"

section \<open>Signature verification\<close>

text \<open>\<^verbatim>\<open>bytes.hex\<close> / \<^verbatim>\<open>hexdigest()\<close>: two lower-case hexadecimal digits per byte.\<close>

definition hex_digit :: "nat \<Rightarrow> char" where
  "hex_digit n = ''0123456789abcdef'' ! (n mod 16)"

definition hexdigest :: "string \<Rightarrow> string" where
  "hexdigest bs = concat (map (\<lambda>b. [hex_digit (of_char b div 16), hex_digit (of_char b)]) bs)"

definition is_ascii :: "char \<Rightarrow> bool" where
  "is_ascii c = ((of_char c :: nat) < 128)"

text \<open>
  \<^verbatim>\<open>hmac.compare_digest(a, b)\<close> on two \<^verbatim>\<open>str\<close>: both must be ASCII only, otherwise it
  raises \<^verbatim>\<open>TypeError\<close>; on ASCII strings it is equality (in constant time).
\<close>

definition compare_digest :: "string \<Rightarrow> string \<Rightarrow> py_error + bool" where
  "compare_digest a b =
     (if list_all is_ascii a \<and> list_all is_ascii b then Inr (a = b) else Inl TypeError)"

text \<open>
  \<^verbatim>\<open>get_webhook_keys\<close>: the cached list if there is one; otherwise the non-empty
  \<^verbatim>\<open>webhooks_secret\<close> of every settings record, which is then cached.
  \<^verbatim>\<open>clear_cache\<close> deletes the cache entry.
\<close>

definition get_webhook_keys :: "state \<Rightarrow> string list \<times> state" where
  "get_webhook_keys s =
     (case secret_cache s of
        Some keys \<Rightarrow> (keys, s)
      | None \<Rightarrow>
          (let webhook_keys = [k. Some k \<leftarrow> settings_secrets s, k \<noteq> []]
           in (webhook_keys, s\<lparr>secret_cache := Some webhook_keys\<rparr>)))"

definition clear_cache :: "state \<Rightarrow> state" where
  "clear_cache s = s\<lparr>secret_cache := None\<rparr>"

text \<open>The loop of \<^verbatim>\<open>authenticate_signature\<close> over the keys.\<close>

fun match_keys :: "env \<Rightarrow> string \<Rightarrow> string \<Rightarrow> string list \<Rightarrow> py_error + bool" where
  "match_keys env received_signature body [] = Inr False"
| "match_keys env received_signature body (key # keys) =
     (let computed_signature = hexdigest (hmac_sha256 env key body) in
      case compare_digest received_signature computed_signature of
        Inl e \<Rightarrow> Inl e
      | Inr True \<Rightarrow> Inr True
      | Inr False \<Rightarrow> match_keys env received_signature body keys)"

definition authenticate_signature :: "env \<Rightarrow> request \<Rightarrow> state \<Rightarrow> (py_error + bool) \<times> state" where
  "authenticate_signature env r s =
     (case webhook_signature r of
        None \<Rightarrow> (Inr False, s)
      | Some received_signature \<Rightarrow>
          if received_signature = [] then (Inr False, s)
          else (case get_webhook_keys s of
                  (keys, s') \<Rightarrow> (match_keys env received_signature (get_data r) keys, s')))"

section \<open>The handlers\<close>

subsection \<open>Mandates\<close>

text \<open>
  \<^verbatim>\<open>frappe.db.set_value("GoCardless Mandate", mandate, "disabled", disabled)\<close>: an
  update of the record of that name; a name without a record changes nothing.
\<close>

definition db_set_value_mandate :: "int \<Rightarrow> json \<Rightarrow> state \<Rightarrow> state" where
  "db_set_value_mandate disabled mandate s =
     (if mandate \<in> dom (mandates s) then s\<lparr>mandates := (mandates s)(mandate \<mapsto> disabled)\<rparr> else s)"

text \<open>\<^verbatim>\<open>for link in event["links"]: mandates.append(link["mandate"])\<close>\<close>

fun collect_mandates :: "json list \<Rightarrow> py_error + json list" where
  "collect_mandates [] = Inr []"
| "collect_mandates (link # links) =
     try_bind (subscript link ''mandate'') (\<lambda>mandate.
     try_bind (collect_mandates links) (\<lambda>rest. Inr (mandate # rest)))"

text \<open>Lines 46 to 51: the list \<^verbatim>\<open>mandates\<close>.\<close>

definition mandate_ids :: "json \<Rightarrow> py_error + json list" where
  "mandate_ids event =
     try_bind (subscript event ''links'') (\<lambda>links.
       case links of
         JList ls \<Rightarrow> collect_mandates ls
       | _ \<Rightarrow> try_bind (subscript links ''mandate'') (\<lambda>mandate. Inr [mandate]))"

definition set_mandate_status :: "json \<Rightarrow> state \<Rightarrow> outcome" where
  "set_mandate_status event s =
     (case mandate_ids event of
        Inl e \<Rightarrow> (Some e, s)
      | Inr ids \<Rightarrow>
          (case subscript event ''action'' of
             Inl e \<Rightarrow> (Some e, s)
           | Inr action \<Rightarrow>
               (let disabled =
                      (if action = JStr ''pending_customer_approval''
                          \<or> action = JStr ''pending_submission''
                          \<or> action = JStr ''submitted''
                          \<or> action = JStr ''active''
                       then 0 else 1)
                in (None, fold (db_set_value_mandate disabled) ids s))))"

subsection \<open>Payment requests\<close>

definition update_doc :: "json \<Rightarrow> (payment_request \<Rightarrow> payment_request) \<Rightarrow> state \<Rightarrow> state" where
  "update_doc name f s =
     s\<lparr>payment_requests := (payment_requests s)(name := map_option f (payment_requests s name))\<rparr>"

definition doc_status :: "state \<Rightarrow> json \<Rightarrow> string option" where
  "doc_status s name = map_option status (payment_requests s name)"

text \<open>\<^verbatim>\<open>doc.add_comment('Info', text=..., comment_by=..., comment_email=...)\<close>\<close>

definition add_comment :: "json \<Rightarrow> string \<Rightarrow> pytext \<Rightarrow> string \<Rightarrow> string \<Rightarrow> state \<Rightarrow> state" where
  "add_comment name ctype txt by email s =
     update_doc name (\<lambda>d. d\<lparr>comments := comments d @
        [\<lparr>comment_type = ctype, comment_text = txt, comment_by = by, comment_email = email\<rparr>]\<rparr>) s"

text \<open>\<^verbatim>\<open>doc.db_set("status", value)\<close>\<close>

definition db_set_status :: "json \<Rightarrow> string \<Rightarrow> state \<Rightarrow> state" where
  "db_set_status name value s = update_doc name (\<lambda>d. d\<lparr>status := value\<rparr>) s"

text \<open>
  \<^verbatim>\<open>doc.db_set("failed_reason", value)\<close>: the column exists from ERPNext 16 on; on a
  table without it the write raises \<open>unknown_field_error env\<close> and stores nothing.
\<close>

definition db_set_failed_reason :: "env \<Rightarrow> json \<Rightarrow> json \<Rightarrow> state \<Rightarrow> outcome" where
  "db_set_failed_reason env name value s =
     (if has_failed_reason env then (None, update_doc name (\<lambda>d. d\<lparr>failed_reason := Some value\<rparr>) s)
      else (Some (unknown_field_error env), s))"

text \<open>
  Modelled from the spec: the document's own transitions \<^verbatim>\<open>set_as_paid\<close> and
  \<^verbatim>\<open>set_as_cancelled\<close> belong to the \<^verbatim>\<open>Payment Request\<close> document type of ERPNext
  and are not in this module. The spec calls them the canonical "mark paid" and "mark
  cancelled" transitions: each sets the status; the call itself is recorded in
  \<open>transitions\<close>, standing for whatever else the transition does.
\<close>

definition set_as_paid :: "json \<Rightarrow> state \<Rightarrow> state" where
  "set_as_paid name s = (db_set_status name ''Paid'' s)\<lparr>transitions := transitions s @ [SetAsPaid name]\<rparr>"

definition set_as_cancelled :: "json \<Rightarrow> state \<Rightarrow> state" where
  "set_as_cancelled name s =
     (db_set_status name ''Cancelled'' s)\<lparr>transitions := transitions s @ [SetAsCancelled name]\<rparr>"

text \<open>Lines 72 to 78: the comment, piece by piece.\<close>

definition comment_of :: "json \<Rightarrow> json \<Rightarrow> json \<Rightarrow> py_error + pytext" where
  "comment_of event_action event_description payment_id =
     try_bind (if truthy event_action
               then (case event_action of
                       JStr a \<Rightarrow> Inr [Lit (''<strong>GoCardless Event: <em>'' @ capitalize a @ ''<em></strong>'')]
                     | _ \<Rightarrow> Inl AttributeError)
               else Inr []) (\<lambda>c1.
     Inr (c1
          @ (if truthy event_description then [Lit ''<br>'', StrOf event_description] else [])
          @ (if truthy payment_id
             then [Lit ''<br><a href='https://manage.gocardless.com/payments/'', StrOf payment_id,
                   Lit '''>View Payment</a>'']
             else [])))"

text \<open>
  Lines 85 to 96: the four guarded transitions, in the order of the source. In the last
  one \<^verbatim>\<open>except KeyError\<close> covers both the lookup in the event and the write.
\<close>

definition apply_action :: "env \<Rightarrow> json \<Rightarrow> json \<Rightarrow> json \<Rightarrow> state \<Rightarrow> outcome" where
  "apply_action env event event_action name s =
     (let s1 = (if event_action = JStr ''submitted'' \<and> doc_status s name \<noteq> Some ''Initiated''
                then db_set_status name ''Initiated'' s else s);
          s2 = (if event_action = JStr ''confirmed'' \<and> doc_status s1 name \<noteq> Some ''Paid''
                then set_as_paid name s1 else s1);
          s3 = (if event_action = JStr ''cancelled'' \<and> doc_status s2 name \<noteq> Some ''Cancelled''
                then set_as_cancelled name s2 else s2)
      in if event_action = JStr ''failed'' \<and> doc_status s3 name \<noteq> Some ''Failed''
         then (let s4 = db_set_status name ''Failed'' s3 in
               case try_bind (subscript event ''details'') (\<lambda>d. subscript d ''description'') of
                 Inl e \<Rightarrow> (if e = KeyError then (None, s4) else (Some e, s4))
               | Inr description \<Rightarrow>
                   (case db_set_failed_reason env name description s4 of
                      (Some e, s5) \<Rightarrow> (if e = KeyError then (None, s5) else (Some e, s5))
                    | (None, s5) \<Rightarrow> (None, s5)))
         else (None, s3))"

definition set_payment_request_status :: "env \<Rightarrow> json \<Rightarrow> state \<Rightarrow> outcome" where
  "set_payment_request_status env event s =
     (case try_bind (dict_get event ''action'' JNull) (\<lambda>event_action.
           try_bind (dict_get event ''details'' (JObj [])) (\<lambda>details.
           try_bind (dict_get details ''description'' JNull) (\<lambda>event_description.
           try_bind (dict_get event ''links'' (JObj [])) (\<lambda>links.
           try_bind (dict_get links ''payment'' JNull) (\<lambda>payment_id.
           try_bind (comment_of event_action event_description payment_id) (\<lambda>comment.
           try_bind (dict_get event ''resource_metadata'' (JObj [])) (\<lambda>metadata.
           try_bind (dict_get metadata ''reference_document'' JNull) (\<lambda>payment_request.
           Inr (event_action, comment, payment_request))))))))) of
        Inl e \<Rightarrow> (Some e, s)
      | Inr (event_action, comment, payment_request) \<Rightarrow>
          if \<not> truthy payment_request then (None, s)
          else (case payment_requests s payment_request of
                  None \<Rightarrow> (Some DoesNotExistError, s)
                | Some doc \<Rightarrow>
                    (let s0 = (if comment \<noteq> []
                               then add_comment payment_request ''Info'' comment ''GoCardless''
                                      ''help@gocardless.com'' s
                               else s)
                     in apply_action env event event_action payment_request s0)))"

subsection \<open>Payouts\<close>

text \<open>
  Lines 118 to 155: the journal entry built from the payout. The source computes the
  amounts as floating-point numbers, \<^verbatim>\<open>float(payout.amount) / 100\<close>; here they are
  rational numbers, which is the same value whenever the quotient and the sum are
  representable (as are 100.0, 2.5, 102.5 and 105.0).
\<close>

definition payout_journal_entry ::
  "payout \<Rightarrow> string option \<Rightarrow> string option \<Rightarrow> string option \<Rightarrow> string \<Rightarrow> journal_entry" where
  "payout_journal_entry p deposit_account fees_acc payment_account created_at_date =
     (let amt = (of_int (amount p) :: rat) / 100;
          fees = (of_int (deducted_fees p) :: rat) / 100
      in \<lparr>voucher_type = ''Journal Entry'',
          posting_date = arrival_date p,
          cheque_date = created_at_date,
          cheque_no = reference p,
          accounts =
            [\<lparr>account = deposit_account, debit_in_account_currency = amt, debit = amt,
              credit = 0, credit_in_account_currency = 0\<rparr>,
             \<lparr>account = fees_acc, debit_in_account_currency = 0, debit = 0,
              credit = fees, credit_in_account_currency = fees\<rparr>,
             \<lparr>account = payment_account, debit_in_account_currency = 0, debit = 0,
              credit = amt + fees, credit_in_account_currency = amt + fees\<rparr>]\<rparr>)"

definition total_debit :: "journal_entry \<Rightarrow> rat" where
  "total_debit je = sum_list (map debit (accounts je))"

definition total_credit :: "journal_entry \<Rightarrow> rat" where
  "total_credit je = sum_list (map credit (accounts je))"

text \<open>
  Lines 102 to 155, the part of the \<^verbatim>\<open>try\<close> block before the entry is stored: each
  query and API call in the order of the source. \<^verbatim>\<open>"%" + account_number_ending\<close>
  raises \<^verbatim>\<open>TypeError\<close> when the attribute is \<^verbatim>\<open>None\<close>.
\<close>

definition build_payout_journal :: "env \<Rightarrow> json \<Rightarrow> py_error + journal_entry" where
  "build_payout_journal env event =
     try_bind (dict_get event ''links'' JNull) (\<lambda>links.
     try_bind (dict_get links ''payout'' JNull) (\<lambda>payout_id.
     try_bind (get_last_settings env) (\<lambda>gc_settings.
     try_bind (get_payment_gateway env (settings_name gc_settings)) (\<lambda>payment_gateway.
     try_bind (get_payment_account env payment_gateway) (\<lambda>payment_account.
     try_bind (initialize_client env) (\<lambda>client.
     try_bind (payouts_get env payout_id) (\<lambda>payout.
     try_bind (account_number_ending env (creditor_bank_account payout)) (\<lambda>ending.
     try_bind (case ending of
                 None \<Rightarrow> Inl TypeError
               | Some digits \<Rightarrow> get_last_bank_account env (''%'' @ digits)) (\<lambda>deposit_account.
     try_bind (parse_date env (created_at payout)) (\<lambda>created_at_date.
     Inr (payout_journal_entry payout deposit_account (fees_account gc_settings)
            payment_account created_at_date)))))))))))"

text \<open>
  \<^verbatim>\<open>create_payout_journal\<close>: the whole body is inside \<^verbatim>\<open>try\<close>, and
  \<^verbatim>\<open>except Exception\<close> logs the exception. \<^verbatim>\<open>insert\<close> stores the entry as a draft,
  \<^verbatim>\<open>submit\<close> makes it final; either may refuse the entry.
\<close>

definition create_payout_journal :: "env \<Rightarrow> json \<Rightarrow> state \<Rightarrow> outcome" where
  "create_payout_journal env event s =
     (case build_payout_journal env event of
        Inl e \<Rightarrow> (None, log_error ''GoCardless Payout Journal Creation Error'' [StrOfError e] s)
      | Inr journal_entry \<Rightarrow>
          (case insert_journal_entry env journal_entry of
             Some e \<Rightarrow> (None, log_error ''GoCardless Payout Journal Creation Error'' [StrOfError e] s)
           | None \<Rightarrow>
               (let s1 = s\<lparr>journal_entries := journal_entries s @ [(journal_entry, 0)]\<rparr> in
                case submit_journal_entry env journal_entry of
                  Some e \<Rightarrow>
                    (None, log_error ''GoCardless Payout Journal Creation Error'' [StrOfError e] s1)
                | None \<Rightarrow>
                    (None, s\<lparr>journal_entries := journal_entries s @ [(journal_entry, 1)]\<rparr>))))"

section \<open>Dispatch and the endpoint\<close>

definition set_status :: "env \<Rightarrow> json \<Rightarrow> state \<Rightarrow> outcome" where
  "set_status env event s =
     (case try_bind (dict_get event ''resource_type'' (JObj [])) (\<lambda>resource_type.
           try_bind (dict_get event ''resource_metadata'' (JObj [])) (\<lambda>metadata.
           try_bind (dict_get metadata ''reference_doctype'' JNull) (\<lambda>reference_doctype.
           Inr (resource_type, reference_doctype)))) of
        Inl e \<Rightarrow> (Some e, s)
      | Inr (resource_type, reference_doctype) \<Rightarrow>
          and_then (if resource_type = JStr ''mandates'' then set_mandate_status event s
                    else (None, s)) (\<lambda>s1.
          and_then (if resource_type = JStr ''payments'' \<and> reference_doctype = JStr ''Payment Request''
                    then set_payment_request_status env event s1 else (None, s1)) (\<lambda>s2.
          if resource_type = JStr ''payouts''
          then (if ''erpnext'' \<in> set (installed_apps env) then create_payout_journal env event s2
                else (None, s2))
          else (None, s2))))"

text \<open>\<^verbatim>\<open>for event in gocardless_events["events"]: set_status(event)\<close>\<close>

fun set_status_each :: "env \<Rightarrow> json list \<Rightarrow> state \<Rightarrow> outcome" where
  "set_status_each env [] s = (None, s)"
| "set_status_each env (event # events) s =
     and_then (set_status env event s) (set_status_each env events)"

text \<open>
  \<^verbatim>\<open>webhooks\<close>: \<open>Inr None\<close> is the bare \<^verbatim>\<open>return\<close>, \<open>Inr (Some 200)\<close> is
  \<^verbatim>\<open>return 200\<close>, \<open>Inl e\<close> an exception that leaves the function.
\<close>

definition webhooks :: "env \<Rightarrow> request option \<Rightarrow> state \<Rightarrow> (py_error + int option) \<times> state" where
  "webhooks env req s =
     (case req of
        None \<Rightarrow> (Inr None, s)
      | Some r \<Rightarrow>
          (case authenticate_signature env r s of
             (Inl e, s1) \<Rightarrow> (Inl e, s1)
           | (Inr False, s1) \<Rightarrow> (Inl AuthenticationError, s1)
           | (Inr True, s1) \<Rightarrow>
               (case json_loads env (get_data r) of
                  Inl e \<Rightarrow> (Inl e, s1)
                | Inr decoded \<Rightarrow>
                    (let gocardless_events = (if truthy decoded then decoded else JList []) in
                     case try_bind (subscript gocardless_events ''events'') iterate of
                       Inl e \<Rightarrow> (Inl e, s1)
                     | Inr events \<Rightarrow>
                         (case set_status_each env events s1 of
                            (Some e, s2) \<Rightarrow> (Inl e, s2)
                          | (None, s2) \<Rightarrow>
                              (Inr (Some 200),
                               log_error ''GoCardless Webhook'' [StrOf gocardless_events] s2))))))"

section \<open>Shapes of events\<close>

text \<open>
  An event of resource type \<^verbatim>\<open>mandates\<close> without a mandate id: a dictionary whose
  \<^verbatim>\<open>links\<close> entry is absent, or is a dictionary without the key \<^verbatim>\<open>mandate\<close>, or is a
  list of dictionaries one of which has no key \<^verbatim>\<open>mandate\<close>. Its
  \<^verbatim>\<open>resource_metadata\<close>, which the dispatcher reads first, is absent or a dictionary.
\<close>

fun is_dict :: "json \<Rightarrow> bool" where
  "is_dict (JObj kvs) = True"
| "is_dict _ = False"

definition has_no_mandate :: "json \<Rightarrow> bool" where
  "has_no_mandate link = (subscript link ''mandate'' = Inl KeyError)"

definition mandate_event_without_id :: "json \<Rightarrow> bool" where
  "mandate_event_without_id event =
     (case event of
        JObj kvs \<Rightarrow>
          map_of kvs ''resource_type'' = Some (JStr ''mandates'')
          \<and> (case map_of kvs ''resource_metadata'' of None \<Rightarrow> True | Some m \<Rightarrow> is_dict m)
          \<and> (case map_of kvs ''links'' of
                None \<Rightarrow> True
              | Some (JObj l) \<Rightarrow> map_of l ''mandate'' = None
              | Some (JList ls) \<Rightarrow> list_all is_dict ls \<and> list_ex has_no_mandate ls
              | Some _ \<Rightarrow> False)
      | _ \<Rightarrow> False)"

text \<open>
  An event that reaches neither the mandate handler nor the payment-request handler:
  a dictionary whose \<^verbatim>\<open>resource_metadata\<close> is absent or a dictionary, whose resource
  type is not \<^verbatim>\<open>mandates\<close>, and which is not a payment of a \<^verbatim>\<open>Payment Request\<close>.
  Payout events and events of an unknown resource type are of this kind.
\<close>

definition payout_or_skipped :: "json \<Rightarrow> bool" where
  "payout_or_skipped event =
     (case event of
        JObj kvs \<Rightarrow>
          map_of kvs ''resource_type'' \<noteq> Some (JStr ''mandates'')
          \<and> (case map_of kvs ''resource_metadata'' of
                None \<Rightarrow> True
              | Some (JObj m) \<Rightarrow>
                  \<not> (map_of kvs ''resource_type'' = Some (JStr ''payments'')
                     \<and> map_of m ''reference_doctype'' = Some (JStr ''Payment Request''))
              | Some _ \<Rightarrow> False)
      | _ \<Rightarrow> False)"

section \<open>Example inputs\<close>

text \<open>
  Two request bodies, the values \<^verbatim>\<open>json.loads\<close> decodes them to, and their
  HMAC-SHA256 digests under the key \<^verbatim>\<open>secret\<close>. The second event of
  \<open>broken_body\<close> is a mandate event without \<^verbatim>\<open>links\<close>.
\<close>

definition example_body :: string where
  \<open>example_body = ''{"events": [{"resource_type": "mandates", "action": "active", "links": {"mandate": "MD001"}}, {"resource_type": "unknown_future_type"}]}''\<close>

definition example_batch :: json where
  "example_batch =
     JObj [(''events'', JList
       [JObj [(''resource_type'', JStr ''mandates''), (''action'', JStr ''active''),
              (''links'', JObj [(''mandate'', JStr ''MD001'')])],
        JObj [(''resource_type'', JStr ''unknown_future_type'')]])]"

definition example_digest :: string where
  "example_digest =
     [CHR 0xD8, CHR 0x2B, CHR 0x63, CHR 0x88, CHR 0x6F, CHR 0x6E, CHR 0x9A, CHR 0x2B,
      CHR 0x63, CHR 0x9E, CHR 0x51, CHR 0x08, CHR 0x3B, CHR 0x2C, CHR 0x89, CHR 0x8F,
      CHR 0x15, CHR 0xE5, CHR 0x9E, CHR 0x42, CHR 0x27, CHR 0xB8, CHR 0x7D, CHR 0x1C,
      CHR 0xB0, CHR 0x37, CHR 0xF9, CHR 0x49, CHR 0xBB, CHR 0xD3, CHR 0x13, CHR 0xF7]"

definition broken_body :: string where
  \<open>broken_body = ''{"events": [{"resource_type": "mandates", "action": "active", "links": {"mandate": "MD001"}}, {"resource_type": "mandates", "action": "active"}, {"resource_type": "mandates", "action": "failed", "links": {"mandate": "MD002"}}]}''\<close>

definition broken_batch :: json where
  "broken_batch =
     JObj [(''events'', JList
       [JObj [(''resource_type'', JStr ''mandates''), (''action'', JStr ''active''),
              (''links'', JObj [(''mandate'', JStr ''MD001'')])],
        JObj [(''resource_type'', JStr ''mandates''), (''action'', JStr ''active'')],
        JObj [(''resource_type'', JStr ''mandates''), (''action'', JStr ''failed''),
              (''links'', JObj [(''mandate'', JStr ''MD002'')])]])]"

definition broken_digest :: string where
  "broken_digest =
     [CHR 0x1E, CHR 0x55, CHR 0xE4, CHR 0x71, CHR 0xA9, CHR 0x78, CHR 0x15, CHR 0x27,
      CHR 0xF6, CHR 0x67, CHR 0x4A, CHR 0x51, CHR 0x6E, CHR 0xDF, CHR 0xEB, CHR 0x2D,
      CHR 0xD6, CHR 0x7C, CHR 0x6C, CHR 0x98, CHR 0xCA, CHR 0x37, CHR 0x7D, CHR 0x49,
      CHR 0xC5, CHR 0xDC, CHR 0x33, CHR 0x67, CHR 0x90, CHR 0xB9, CHR 0xF4, CHR 0x9E]"

text \<open>
  A payout of 10000 minor units with 250 deducted (scenario 4 of the spec), and an
  environment: the two digests and decodings above (for any other key or body the
  digest is a block of 32 zero bytes and the decoding fails; the examples use neither),
  ERPNext installed, a \<^verbatim>\<open>Payment Request\<close> table without the column
  \<^verbatim>\<open>failed_reason\<close>, and a payout API that knows the payout \<^verbatim>\<open>PO001\<close> only.
\<close>

definition example_payout :: payout where
  "example_payout =
     \<lparr>amount = 10000, deducted_fees = 250, created_at = ''2024-05-01T10:00:00.000Z'',
      arrival_date = ''2024-05-03'', reference = ''REF-PO001'', creditor_bank_account = ''BA001''\<rparr>"

definition example_env :: env where
  "example_env =
     \<lparr>hmac_sha256 = (\<lambda>key msg.
        if key = ''secret'' \<and> msg = example_body then example_digest
        else if key = ''secret'' \<and> msg = broken_body then broken_digest
        else replicate 32 (CHR 0x00)),
      json_loads = (\<lambda>body.
        if body = example_body then Inr example_batch
        else if body = broken_body then Inr broken_batch
        else Inl ValueError),
      installed_apps = [''frappe'', ''payments'', ''erpnext''],
      has_failed_reason = False,
      unknown_field_error = KeyError,
      get_last_settings = Inr \<lparr>settings_name = ''GoCardless'', fees_account = Some ''Bank Charges''\<rparr>,
      get_payment_gateway = (\<lambda>controller. Inr (Some ''GoCardless-GoCardless'')),
      get_payment_account = (\<lambda>gateway. Inr (Some ''GoCardless Clearing'')),
      initialize_client = Inr (),
      payouts_get = (\<lambda>payout_id.
        if payout_id = JStr ''PO001'' then Inr example_payout else Inl (OtherError ''not found'')),
      account_number_ending = (\<lambda>bank_account. Inr (Some ''11'')),
      get_last_bank_account = (\<lambda>pattern. Inr (Some ''Bank'')),
      parse_date = (\<lambda>created. Inr (take 10 created)),
      insert_journal_entry = (\<lambda>je. None),
      submit_journal_entry = (\<lambda>je. None)\<rparr>"

definition example_state :: state where
  "example_state =
     \<lparr>mandates = [JStr ''MD001'' \<mapsto> 1, JStr ''MD002'' \<mapsto> 0],
      payment_requests =
        [JStr ''PR001'' \<mapsto> \<lparr>status = ''Initiated'', failed_reason = None, comments = []\<rparr>],
      transitions = [],
      journal_entries = [],
      error_log = [],
      settings_secrets = [Some ''secret'', None, Some ''''],
      secret_cache = None\<rparr>"

definition confirmed_event :: json where
  "confirmed_event =
     JObj [(''resource_type'', JStr ''payments''), (''action'', JStr ''confirmed''),
           (''resource_metadata'',
              JObj [(''reference_doctype'', JStr ''Payment Request''),
                    (''reference_document'', JStr ''PR001'')])]"

definition failed_event :: json where
  "failed_event =
     JObj [(''resource_type'', JStr ''payments''), (''action'', JStr ''failed''),
           (''details'', JObj [(''description'', JStr ''Insufficient funds'')]),
           (''resource_metadata'',
              JObj [(''reference_doctype'', JStr ''Payment Request''),
                    (''reference_document'', JStr ''PR001'')])]"

definition payout_event :: json where
  "payout_event =
     JObj [(''resource_type'', JStr ''payouts''), (''action'', JStr ''paid''),
           (''links'', JObj [(''payout'', JStr ''PO001'')])]"

text \<open>The two bodies as signed requests: the header is the digest in hexadecimal.\<close>

definition example_request :: request where
  "example_request =
     \<lparr>get_data = example_body,
      webhook_signature = Some ''d82b63886f6e9a2b639e51083b2c898f15e59e4227b87d1cb037f949bbd313f7''\<rparr>"

definition broken_request :: request where
  "broken_request =
     \<lparr>get_data = broken_body,
      webhook_signature = Some ''1e55e471a9781527f6674a516edfeb2dd67c6c98ca377d49c5dc336790b9f49e''\<rparr>"

section \<open>Properties of the model\<close>

subsection \<open>Signature verification and the unauthenticated request\<close>

lemma hex_digit_ascii: "is_ascii (hex_digit n)"
proof -
  have "n mod 16 < length ''0123456789abcdef''" by simp
  then have "hex_digit n \<in> set ''0123456789abcdef''"
    unfolding hex_digit_def by (rule nth_mem)
  then show ?thesis by (auto simp: is_ascii_def)
qed

lemma hexdigest_ascii: "list_all is_ascii (hexdigest bs)"
  by (induction bs) (simp_all add: hexdigest_def hex_digit_ascii)

lemma hexdigest_eq_Nil: "(hexdigest bs = []) = (bs = [])"
  by (cases bs) (simp_all add: hexdigest_def)

lemma compare_digest_ascii:
  "list_all is_ascii a \<Longrightarrow> compare_digest a (hexdigest bs) = Inr (a = hexdigest bs)"
  by (simp add: compare_digest_def hexdigest_ascii)

lemma compare_digest_non_ascii:
  "\<not> list_all is_ascii a \<Longrightarrow> compare_digest a b = Inl TypeError"
  by (simp add: compare_digest_def)

lemma match_keys_ascii:
  "list_all is_ascii received \<Longrightarrow>
   match_keys env received body keys =
     Inr (\<exists>key \<in> set keys. received = hexdigest (hmac_sha256 env key body))"
  by (induction keys) (auto simp: compare_digest_ascii split: bool.splits)

lemma match_keys_non_ascii:
  "\<not> list_all is_ascii received \<Longrightarrow>
   match_keys env received body keys = (if keys = [] then Inr False else Inl TypeError)"
  by (cases keys) (simp_all add: compare_digest_non_ascii)

lemma get_webhook_keys_state:
  "snd (get_webhook_keys s) = s\<lparr>secret_cache := Some (fst (get_webhook_keys s))\<rparr>"
  by (cases "secret_cache s") (simp_all add: get_webhook_keys_def Let_def)

lemma authenticate_signature_snd:
  "snd (authenticate_signature env r s) =
     (if webhook_signature r = None \<or> webhook_signature r = Some [] then s
      else snd (get_webhook_keys s))"
  by (cases "webhook_signature r")
     (simp_all add: authenticate_signature_def split: prod.splits)

lemma authenticate_signature_state:
  "\<exists>cache. snd (authenticate_signature env r s) = s\<lparr>secret_cache := cache\<rparr>"
proof (cases "webhook_signature r = None \<or> webhook_signature r = Some []")
  case True
  then have "snd (authenticate_signature env r s) = s\<lparr>secret_cache := secret_cache s\<rparr>"
    by (simp add: authenticate_signature_snd)
  then show ?thesis ..
next
  case False
  then have "snd (authenticate_signature env r s) = snd (get_webhook_keys s)"
    by (simp only: authenticate_signature_snd if_False)
  then have "snd (authenticate_signature env r s)
               = s\<lparr>secret_cache := Some (fst (get_webhook_keys s))\<rparr>"
    by (simp only: get_webhook_keys_state [symmetric])
  then show ?thesis ..
qed

lemma match_keys_env:
  "hmac_sha256 env' = hmac_sha256 env \<Longrightarrow>
   match_keys env' received body keys = match_keys env received body keys"
  by (induction keys) (simp_all split: sum.splits bool.splits)

lemma authenticate_signature_env:
  "hmac_sha256 env' = hmac_sha256 env \<Longrightarrow>
   authenticate_signature env' r s = authenticate_signature env r s"
proof -
  assume "hmac_sha256 env' = hmac_sha256 env"
  then have "\<And>received body keys.
      match_keys env' received body keys = match_keys env received body keys"
    by (rule match_keys_env)
  then show ?thesis
    by (simp add: authenticate_signature_def split: option.splits prod.splits)
qed

lemma webhooks_not_authenticated:
  assumes "fst (authenticate_signature env r s) \<noteq> Inr True"
  shows "webhooks env (Some r) s =
           (case fst (authenticate_signature env r s) of
              Inl e \<Rightarrow> Inl e | Inr b \<Rightarrow> Inl AuthenticationError,
            snd (authenticate_signature env r s))"
proof (cases "authenticate_signature env r s")
  case (Pair a s1)
  show ?thesis
  proof (cases a)
    case (Inl e)
    with Pair show ?thesis by (simp add: webhooks_def)
  next
    case (Inr b)
    with Pair assms have "b = False" by simp
    with Pair Inr show ?thesis by (simp add: webhooks_def)
  qed
qed

subsection \<open>The mandate store\<close>

lemma try_bind_Inr_iff:
  "(try_bind m f = Inr y) = (\<exists>x. m = Inr x \<and> f x = Inr y)"
  by (cases m) simp_all

lemma db_set_value_mandate_lookup:
  "mandates (db_set_value_mandate d m s) k =
     (if k = m \<and> m \<in> dom (mandates s) then Some d else mandates s k)"
  by (simp add: db_set_value_mandate_def)

lemma db_set_value_mandate_dom:
  "dom (mandates (db_set_value_mandate d m s)) = dom (mandates s)"
  by (auto simp: db_set_value_mandate_def)

lemma fold_db_set_value_mandate_dom:
  "dom (mandates (fold (db_set_value_mandate d) ids s)) = dom (mandates s)"
  by (induction ids arbitrary: s) (simp_all add: db_set_value_mandate_dom)

lemma fold_db_set_value_mandate_lookup:
  "mandates (fold (db_set_value_mandate d) ids s) k =
     (if k \<in> set ids \<and> k \<in> dom (mandates s) then Some d else mandates s k)"
proof (induction ids arbitrary: s)
  case Nil
  show ?case by simp
next
  case (Cons m ids)
  show ?case
    by (auto simp: Cons.IH db_set_value_mandate_dom db_set_value_mandate_lookup domIff)
qed

lemma db_set_value_mandate_frame:
  "\<exists>f. db_set_value_mandate d m s = s\<lparr>mandates := f\<rparr>"
proof (cases "m \<in> dom (mandates s)")
  case True
  show ?thesis
    by (rule exI [where x = "(mandates s)(m \<mapsto> d)"]) (simp add: db_set_value_mandate_def True)
next
  case False
  show ?thesis
    by (rule exI [where x = "mandates s"]) (simp add: db_set_value_mandate_def False)
qed

lemma fold_db_set_value_mandate_frame:
  "\<exists>f. fold (db_set_value_mandate d) ids s = s\<lparr>mandates := f\<rparr>"
proof (induction ids arbitrary: s)
  case Nil
  show ?case by (rule exI [where x = "mandates s"]) simp
next
  case (Cons m ids)
  obtain f where f: "db_set_value_mandate d m s = s\<lparr>mandates := f\<rparr>"
    using db_set_value_mandate_frame by blast
  obtain g where g: "fold (db_set_value_mandate d) ids (s\<lparr>mandates := f\<rparr>)
                       = s\<lparr>mandates := f\<rparr>\<lparr>mandates := g\<rparr>"
    using Cons.IH by blast
  show ?case by (rule exI [where x = g]) (simp add: f g)
qed

lemma set_mandate_status_ok:
  assumes "mandate_ids event = Inr ids" and "subscript event ''action'' = Inr action"
  shows "set_mandate_status event s =
           (None, fold (db_set_value_mandate
                    (if action = JStr ''pending_customer_approval''
                        \<or> action = JStr ''pending_submission''
                        \<or> action = JStr ''submitted''
                        \<or> action = JStr ''active'' then 0 else 1)) ids s)"
  using assms by (simp add: set_mandate_status_def)

subsection \<open>Mandate events without an id, and the dispatch loop\<close>

lemma subscript_dict_cases:
  "is_dict link \<Longrightarrow> (\<exists>v. subscript link k = Inr v) \<or> subscript link k = Inl KeyError"
  by (cases link) (auto split: option.splits)

lemma collect_mandates_KeyError:
  "list_all is_dict ls \<Longrightarrow> list_ex has_no_mandate ls \<Longrightarrow> collect_mandates ls = Inl KeyError"
proof (induction ls)
  case Nil
  then show ?case by simp
next
  case (Cons link ls)
  from Cons.prems have "is_dict link" by simp
  then consider v where "subscript link ''mandate'' = Inr v"
    | "subscript link ''mandate'' = Inl KeyError"
    using subscript_dict_cases by blast
  then show ?case
  proof cases
    case 1
    then have "\<not> has_no_mandate link" by (simp add: has_no_mandate_def)
    with Cons.prems have "list_all is_dict ls" "list_ex has_no_mandate ls" by simp_all
    then have "collect_mandates ls = Inl KeyError" by (rule Cons.IH)
    with 1 show ?thesis by simp
  next
    case 2
    then show ?thesis by simp
  qed
qed

lemma mandate_ids_KeyError:
  assumes "mandate_event_without_id event"
  shows "mandate_ids event = Inl KeyError"
proof (cases event)
  case (JObj kvs)
  show ?thesis
  proof (cases "map_of kvs ''links''")
    case None
    with JObj show ?thesis by (simp add: mandate_ids_def)
  next
    case (Some links)
    with JObj assms show ?thesis
      by (cases links)
         (simp_all add: mandate_ids_def mandate_event_without_id_def collect_mandates_KeyError)
  qed
qed (use assms in \<open>simp_all add: mandate_event_without_id_def\<close>)

lemma set_mandate_status_KeyError:
  "mandate_event_without_id event \<Longrightarrow> set_mandate_status event s = (Some KeyError, s)"
  by (simp add: set_mandate_status_def mandate_ids_KeyError)

lemma set_status_mandates:
  assumes "mandate_event_without_id event"
  shows "set_status env event s = set_mandate_status event s"
proof (cases event)
  case (JObj kvs)
  with assms have rt: "map_of kvs ''resource_type'' = Some (JStr ''mandates'')"
    by (simp add: mandate_event_without_id_def)
  from assms JObj have md: "\<exists>v. try_bind (dict_get event ''resource_metadata'' (JObj []))
                 (\<lambda>metadata. try_bind (dict_get metadata ''reference_doctype'' JNull)
                    (\<lambda>reference_doctype. Inr (JStr ''mandates'', reference_doctype)))
               = Inr (JStr ''mandates'', v)"
  proof (cases "map_of kvs ''resource_metadata''")
    case None
    with JObj show ?thesis by simp
  next
    case (Some m)
    with assms JObj have "is_dict m" by (simp add: mandate_event_without_id_def)
    then obtain mk where "m = JObj mk" by (cases m) simp_all
    with Some JObj show ?thesis by simp
  qed
  then obtain v where "try_bind (dict_get event ''resource_metadata'' (JObj []))
                 (\<lambda>metadata. try_bind (dict_get metadata ''reference_doctype'' JNull)
                    (\<lambda>reference_doctype. Inr (JStr ''mandates'', reference_doctype)))
               = Inr (JStr ''mandates'', v)" ..
  with JObj rt have "set_status env event s = and_then (set_mandate_status event s) (\<lambda>s1. (None, s1))"
    by (simp add: set_status_def)
  with assms show ?thesis by (simp add: set_mandate_status_KeyError)
qed (use assms in \<open>simp_all add: mandate_event_without_id_def\<close>)

lemma set_status_each_append:
  "set_status_each env (pre @ post) s =
     and_then (set_status_each env pre s) (set_status_each env post)"
proof (induction pre arbitrary: s)
  case Nil
  show ?case by simp
next
  case (Cons event pre)
  show ?case
  proof (cases "set_status env event s")
    case (Pair r s1)
    then show ?thesis by (cases r) (simp_all add: Cons.IH)
  qed
qed

lemma subscript_Inr_truthy: "subscript v k = Inr x \<Longrightarrow> truthy v"
  by (cases v) (auto split: option.splits)

lemma webhooks_authenticated:
  assumes "fst (authenticate_signature env r s) = Inr True"
    and "json_loads env (get_data r) = Inr decoded"
    and "subscript decoded ''events'' = Inr batch"
    and "iterate batch = Inr events"
  shows "webhooks env (Some r) s =
           (case set_status_each env events (snd (authenticate_signature env r s)) of
              (Some e, s2) \<Rightarrow> (Inl e, s2)
            | (None, s2) \<Rightarrow>
                (Inr (Some 200), log_error ''GoCardless Webhook'' [StrOf decoded] s2))"
proof (cases "authenticate_signature env r s")
  case (Pair a s1)
  with assms(1) have a: "a = Inr True" by simp
  from assms(3) have t: "truthy decoded" by (rule subscript_Inr_truthy)
  show ?thesis
    by (simp add: webhooks_def Pair a assms(2-4) t)
qed

subsection \<open>The example requests\<close>

lemma example_keys:
  "get_webhook_keys example_state = ([''secret''], example_state\<lparr>secret_cache := Some [''secret'']\<rparr>)"
  by (simp add: get_webhook_keys_def example_state_def Let_def)

lemma hexdigest_example_digest:
  "hexdigest example_digest = ''d82b63886f6e9a2b639e51083b2c898f15e59e4227b87d1cb037f949bbd313f7''"
  by (simp add: hexdigest_def hex_digit_def example_digest_def)

lemma hexdigest_broken_digest:
  "hexdigest broken_digest = ''1e55e471a9781527f6674a516edfeb2dd67c6c98ca377d49c5dc336790b9f49e''"
  by (simp add: hexdigest_def hex_digit_def broken_digest_def)

lemma bodies_differ: "broken_body \<noteq> example_body"
  by (simp add: broken_body_def example_body_def)

lemma authenticate_example_request:
  "authenticate_signature example_env example_request example_state
     = (Inr True, example_state\<lparr>secret_cache := Some [''secret'']\<rparr>)"
proof -
  have "hmac_sha256 example_env ''secret'' example_body = example_digest"
    by (simp add: example_env_def)
  then show ?thesis
    by (simp add: authenticate_signature_def example_request_def example_keys
          hexdigest_example_digest compare_digest_def is_ascii_def)
qed

lemma authenticate_broken_request:
  "authenticate_signature example_env broken_request example_state
     = (Inr True, example_state\<lparr>secret_cache := Some [''secret'']\<rparr>)"
proof -
  have "hmac_sha256 example_env ''secret'' broken_body = broken_digest"
    by (simp add: example_env_def bodies_differ)
  then show ?thesis
    by (simp add: authenticate_signature_def broken_request_def example_keys
          hexdigest_broken_digest compare_digest_def is_ascii_def)
qed

lemma json_loads_example: "json_loads example_env example_body = Inr example_batch"
  by (simp add: example_env_def)

lemma json_loads_broken: "json_loads example_env broken_body = Inr broken_batch"
  by (simp add: example_env_def bodies_differ)

subsection \<open>Events that reach no raising handler\<close>

lemma create_payout_journal_fst: "fst (create_payout_journal env event s) = None"
  by (simp add: create_payout_journal_def Let_def split: sum.splits option.splits)

lemma set_status_payout_or_skipped:
  assumes "payout_or_skipped event"
  shows "fst (set_status env event s) = None"
proof (cases event)
  case (JObj kvs)
  define rt where "rt = (case map_of kvs ''resource_type'' of Some v \<Rightarrow> v | None \<Rightarrow> JObj [])"
  from assms JObj have nm: "rt \<noteq> JStr ''mandates''"
    by (auto simp: payout_or_skipped_def rt_def split: option.splits)
  from assms JObj have "\<exists>rd. try_bind (dict_get event ''resource_metadata'' (JObj []))
                 (\<lambda>metadata. try_bind (dict_get metadata ''reference_doctype'' JNull)
                    (\<lambda>reference_doctype. Inr (rt, reference_doctype)))
               = Inr (rt, rd)
             \<and> \<not> (rt = JStr ''payments'' \<and> rd = JStr ''Payment Request'')"
    by (auto simp: payout_or_skipped_def rt_def split: option.splits json.splits)
  then obtain rd where
    md: "try_bind (dict_get event ''resource_metadata'' (JObj []))
                 (\<lambda>metadata. try_bind (dict_get metadata ''reference_doctype'' JNull)
                    (\<lambda>reference_doctype. Inr (rt, reference_doctype)))
               = Inr (rt, rd)"
    and np: "\<not> (rt = JStr ''payments'' \<and> rd = JStr ''Payment Request'')"
    by blast
  have "dict_get event ''resource_type'' (JObj []) = Inr rt"
    by (simp add: JObj rt_def)
  with md nm np show ?thesis
    by (auto simp: set_status_def create_payout_journal_fst)
qed (use assms in \<open>simp_all add: payout_or_skipped_def\<close>)

lemma set_status_each_payout_or_skipped:
  "list_all payout_or_skipped events \<Longrightarrow> fst (set_status_each env events s) = None"
proof (induction events arbitrary: s)
  case Nil
  show ?case by simp
next
  case (Cons event events)
  then have "fst (set_status env event s) = None"
    by (simp add: set_status_payout_or_skipped)
  then obtain s1 where "set_status env event s = (None, s1)"
    by (cases "set_status env event s") simp
  with Cons show ?case by simp
qed

lemma set_status_payout:
  assumes "payout_or_skipped event
        \<and> dict_get event ''resource_type'' (JObj []) = Inr (JStr ''payouts'')
        \<and> ''erpnext'' \<in> set (installed_apps env)"
  shows "set_status env event s = create_payout_journal env event s"
proof (cases event)
  case (JObj kvs)
  from assms JObj have "\<exists>rd. try_bind (dict_get event ''resource_metadata'' (JObj []))
                 (\<lambda>metadata. try_bind (dict_get metadata ''reference_doctype'' JNull)
                    (\<lambda>reference_doctype. Inr (JStr ''payouts'', reference_doctype)))
               = Inr (JStr ''payouts'', rd)"
    by (auto simp: payout_or_skipped_def split: option.splits json.splits)
  then obtain rd where
    "try_bind (dict_get event ''resource_metadata'' (JObj []))
                 (\<lambda>metadata. try_bind (dict_get metadata ''reference_doctype'' JNull)
                    (\<lambda>reference_doctype. Inr (JStr ''payouts'', reference_doctype)))
               = Inr (JStr ''payouts'', rd)"
    by blast
  with assms show ?thesis
    by (simp add: set_status_def)
qed (use assms in \<open>simp_all add: payout_or_skipped_def\<close>)

subsection \<open>Totals of the payout journal entry\<close>

text \<open>
  In the exact arithmetic of the model (the source computes with floating-point
  numbers, which agree with it where the quotients and sums are representable):
\<close>

lemma payout_journal_entry_totals:
  "total_debit (payout_journal_entry p d f a c) = of_int (amount p) / 100"
  "total_credit (payout_journal_entry p d f a c)
     = of_int (amount p) / 100 + 2 * (of_int (deducted_fees p) / 100)"
  by (simp_all add: payout_journal_entry_def total_debit_def total_credit_def Let_def)

lemma payout_journal_entry_balanced_iff:
  "(total_debit (payout_journal_entry p d f a c) = total_credit (payout_journal_entry p d f a c))
     = (deducted_fees p = 0)"
  by (simp add: payout_journal_entry_totals)

text \<open>
  With a ledger that refuses an entry whose debits and credits differ, the entry of the
  example payout is refused: nothing is stored, the refusal is logged.
\<close>

lemma payout_journal_refused_by_balance_check:
  "create_payout_journal
     (example_env\<lparr>insert_journal_entry :=
        (\<lambda>je. if total_debit je = total_credit je then None else Some ValidationError)\<rparr>)
     payout_event example_state
   = (None, log_error ''GoCardless Payout Journal Creation Error''
              [StrOfError ValidationError] example_state)"
proof -
  let ?env = "example_env\<lparr>insert_journal_entry :=
        (\<lambda>je. if total_debit je = total_credit je then None else Some ValidationError)\<rparr>"
  let ?je = "payout_journal_entry example_payout (Some ''Bank'') (Some ''Bank Charges'')
               (Some ''GoCardless Clearing'') ''2024-05-01''"
  have b: "build_payout_journal ?env payout_event = Inr ?je"
    by (simp add: build_payout_journal_def payout_event_def example_env_def example_payout_def)
  have "total_debit ?je \<noteq> total_credit ?je"
    by (simp add: payout_journal_entry_totals example_payout_def)
  then have "insert_journal_entry ?env ?je = Some ValidationError" by simp
  with b show ?thesis by (simp add: create_payout_journal_def)
qed

subsection \<open>The payment-request handler\<close>

lemma comment_of_str:
  "a \<noteq> [] \<Longrightarrow> \<exists>c. comment_of (JStr a) description payment_id = Inr c \<and> c \<noteq> []"
  by (simp add: comment_of_def)

lemma set_payment_request_status_found:
  assumes "dict_get event ''action'' JNull = Inr event_action"
    and "try_bind (dict_get event ''details'' (JObj []))
           (\<lambda>details. dict_get details ''description'' JNull) = Inr description"
    and "try_bind (dict_get event ''links'' (JObj []))
           (\<lambda>links. dict_get links ''payment'' JNull) = Inr payment_id"
    and "comment_of event_action description payment_id = Inr comment"
    and "try_bind (dict_get event ''resource_metadata'' (JObj []))
           (\<lambda>metadata. dict_get metadata ''reference_document'' JNull) = Inr name"
    and "truthy name"
    and "payment_requests s name = Some doc"
  shows "set_payment_request_status env event s =
           apply_action env event event_action name
             (if comment \<noteq> []
              then add_comment name ''Info'' comment ''GoCardless'' ''help@gocardless.com'' s
              else s)"
proof -
  from assms(2) obtain details where
    d: "dict_get event ''details'' (JObj []) = Inr details"
       "dict_get details ''description'' JNull = Inr description"
    by (auto simp: try_bind_Inr_iff)
  from assms(3) obtain links where
    l: "dict_get event ''links'' (JObj []) = Inr links"
       "dict_get links ''payment'' JNull = Inr payment_id"
    by (auto simp: try_bind_Inr_iff)
  from assms(5) obtain metadata where
    m: "dict_get event ''resource_metadata'' (JObj []) = Inr metadata"
       "dict_get metadata ''reference_document'' JNull = Inr name"
    by (auto simp: try_bind_Inr_iff)
  show ?thesis
    by (simp add: set_payment_request_status_def assms(1,4,6,7) d l m)
qed

lemma add_comment_doc:
  "payment_requests (add_comment name ctype txt by email s) name =
     map_option (\<lambda>d. d\<lparr>comments := comments d @
        [\<lparr>comment_type = ctype, comment_text = txt, comment_by = by, comment_email = email\<rparr>]\<rparr>)
       (payment_requests s name)"
  by (simp add: add_comment_def update_doc_def)

lemma add_comment_transitions:
  "transitions (add_comment name ctype txt by email s) = transitions s"
  by (simp add: add_comment_def update_doc_def)

lemma add_comment_status:
  "doc_status (add_comment name ctype txt by email s) name = doc_status s name"
  by (cases "payment_requests s name") (simp_all add: doc_status_def add_comment_doc)

lemma apply_action_confirmed:
  "apply_action env event (JStr ''confirmed'') name s =
     (None, if doc_status s name \<noteq> Some ''Paid'' then set_as_paid name s else s)"
  by (simp add: apply_action_def)

lemma set_as_paid_status:
  "payment_requests s name = Some doc \<Longrightarrow> doc_status (set_as_paid name s) name = Some ''Paid''"
  by (simp add: set_as_paid_def db_set_status_def update_doc_def doc_status_def)

lemma set_as_paid_transitions:
  "transitions (set_as_paid name s) = transitions s @ [SetAsPaid name]"
  by (simp add: set_as_paid_def)

lemma set_as_paid_doc:
  "payment_requests (set_as_paid name s) name
     = map_option (\<lambda>d. d\<lparr>status := ''Paid''\<rparr>) (payment_requests s name)"
  by (simp add: set_as_paid_def db_set_status_def update_doc_def)

lemma event_description_cases:
  assumes "try_bind (dict_get event ''details'' (JObj []))
             (\<lambda>details. dict_get details ''description'' JNull) = Inr description"
  shows "(\<exists>v. try_bind (subscript event ''details'') (\<lambda>d. subscript d ''description'') = Inr v)
         \<or> try_bind (subscript event ''details'') (\<lambda>d. subscript d ''description'') = Inl KeyError"
proof -
  from assms obtain details where
    d: "dict_get event ''details'' (JObj []) = Inr details"
       "dict_get details ''description'' JNull = Inr description"
    by (auto simp: try_bind_Inr_iff)
  from d(1) obtain kvs where e: "event = JObj kvs" by (cases event) simp_all
  from d(2) obtain dk where k: "details = JObj dk" by (cases details) simp_all
  show ?thesis
  proof (cases "map_of kvs ''details''")
    case None
    with e show ?thesis by simp
  next
    case (Some x)
    with e d(1) k have "x = JObj dk" by simp
    with e Some show ?thesis by (cases "map_of dk ''description''") simp_all
  qed
qed

text \<open>
  The \<^verbatim>\<open>except KeyError\<close> of the last transition catches nothing else: if the write to
  a missing column raises another exception, that exception leaves the handler after
  the status has been set.
\<close>

lemma apply_action_failed_other_error:
  assumes "\<not> has_failed_reason env" and "unknown_field_error env \<noteq> KeyError"
    and "doc_status s name \<noteq> Some ''Failed''"
    and "try_bind (subscript event ''details'') (\<lambda>d. subscript d ''description'') = Inr v"
  shows "apply_action env event (JStr ''failed'') name s
           = (Some (unknown_field_error env), db_set_status name ''Failed'' s)"
  using assms by (simp add: apply_action_def db_set_failed_reason_def Let_def)

section \<open>The claims\<close>

text \<open>
  What \<^verbatim>\<open>authenticate_signature\<close> returns, by the shape of the header. The keys are
  the ones \<^verbatim>\<open>get_webhook_keys\<close> returns in the given state: the cached list, or the
  non-empty secrets of the settings records when nothing is cached.
\<close>

lemma authenticate_signature_ascii:
  "(webhook_signature r = None \<or> webhook_signature r = Some [] \<longrightarrow>
      authenticate_signature env r s = (Inr False, s))
   \<and> (fst (get_webhook_keys s) = [] \<longrightarrow> fst (authenticate_signature env r s) = Inr False)
   \<and> (\<forall>received. webhook_signature r = Some received \<and> received \<noteq> []
          \<and> list_all is_ascii received \<longrightarrow>
        fst (authenticate_signature env r s) =
          Inr (\<exists>key \<in> set (fst (get_webhook_keys s)).
                 received = hexdigest (hmac_sha256 env key (get_data r))))
   \<and> (\<forall>received. webhook_signature r = Some received \<and> received \<noteq> []
          \<and> \<not> list_all is_ascii received \<and> fst (get_webhook_keys s) \<noteq> [] \<longrightarrow>
        fst (authenticate_signature env r s) = Inl TypeError)
   \<and> (\<forall>key \<in> set (fst (get_webhook_keys s)).
        hmac_sha256 env key (get_data r) \<noteq> []
        \<and> webhook_signature r = Some (hexdigest (hmac_sha256 env key (get_data r))) \<longrightarrow>
        fst (authenticate_signature env r s) = Inr True)
   \<and> (\<exists>cache. snd (authenticate_signature env r s) = s\<lparr>secret_cache := cache\<rparr>)"
proof (intro conjI allI impI ballI)
  assume "webhook_signature r = None \<or> webhook_signature r = Some []"
  then show "authenticate_signature env r s = (Inr False, s)"
    by (auto simp: authenticate_signature_def)
next
  assume "fst (get_webhook_keys s) = []"
  then show "fst (authenticate_signature env r s) = Inr False"
    by (auto simp: authenticate_signature_def split: option.splits prod.splits)
next
  fix received
  assume "webhook_signature r = Some received \<and> received \<noteq> [] \<and> list_all is_ascii received"
  then show "fst (authenticate_signature env r s) =
          Inr (\<exists>key \<in> set (fst (get_webhook_keys s)).
                 received = hexdigest (hmac_sha256 env key (get_data r)))"
    by (auto simp: authenticate_signature_def match_keys_ascii split: prod.splits)
next
  fix received
  assume "webhook_signature r = Some received \<and> received \<noteq> []
          \<and> \<not> list_all is_ascii received \<and> fst (get_webhook_keys s) \<noteq> []"
  then show "fst (authenticate_signature env r s) = Inl TypeError"
    by (auto simp: authenticate_signature_def match_keys_non_ascii split: prod.splits)
next
  fix key
  assume k: "key \<in> set (fst (get_webhook_keys s))"
    and h: "hmac_sha256 env key (get_data r) \<noteq> []
        \<and> webhook_signature r = Some (hexdigest (hmac_sha256 env key (get_data r)))"
  from h have "hexdigest (hmac_sha256 env key (get_data r)) \<noteq> []"
    by (simp add: hexdigest_eq_Nil)
  with k h show "fst (authenticate_signature env r s) = Inr True"
    by (auto simp: authenticate_signature_def match_keys_ascii hexdigest_ascii split: prod.splits)
next
  show "\<exists>cache. snd (authenticate_signature env r s) = s\<lparr>secret_cache := cache\<rparr>"
    by (rule authenticate_signature_state)
qed

text \<open>
  C3 (the code at a header that is not ASCII). The claim has every signature other than
  a digest rejected with false. With the secret \<^verbatim>\<open>secret\<close> configured, the one-character
  signature U+00E9 is not the digest of the body, yet \<^verbatim>\<open>authenticate_signature\<close> does
  not return false: \<^verbatim>\<open>hmac.compare_digest\<close> raises \<^verbatim>\<open>TypeError\<close>. The same header is
  answered with false when no secret is configured, as is every ASCII header that
  matches no digest.
\<close>

theorem authenticate_signature_non_ascii_raises:
  "fst (get_webhook_keys example_state) = [''secret'']
   \<and> [CHR 0xE9] \<noteq> hexdigest (hmac_sha256 example_env ''secret'' example_body)
   \<and> fst (authenticate_signature example_env
         \<lparr>get_data = example_body, webhook_signature = Some [CHR 0xE9]\<rparr> example_state)
       = Inl TypeError
   \<and> fst (authenticate_signature example_env
         \<lparr>get_data = example_body, webhook_signature = Some [CHR 0xE9]\<rparr>
         (example_state\<lparr>settings_secrets := []\<rparr>))
       = Inr False
   \<and> fst (authenticate_signature example_env
         \<lparr>get_data = example_body, webhook_signature = Some ''deadbeef''\<rparr> example_state)
       = Inr False"
  by (simp add: authenticate_signature_def get_webhook_keys_def example_state_def Let_def
        compare_digest_def is_ascii_def example_env_def example_digest_def hexdigest_def
        hex_digit_def)

text \<open>
  The endpoint before the verification has returned true. When
  \<^verbatim>\<open>authenticate_signature\<close> returns false, and in particular when the header is
  missing, \<^verbatim>\<open>webhooks\<close> raises \<^verbatim>\<open>AuthenticationError\<close>. Whenever the verification has
  not returned true, \<^verbatim>\<open>webhooks\<close> ends with an exception, the state is the one the
  verification left (it differs from the initial one in the cache of the secrets at
  most), and the outcome is the same whatever \<^verbatim>\<open>json.loads\<close> would answer and whichever
  apps are installed: the body is not decoded and no event is dispatched.
\<close>

lemma webhooks_authentication_first:
  "(fst (authenticate_signature env r s) = Inr False \<longrightarrow>
      fst (webhooks env (Some r) s) = Inl AuthenticationError)
   \<and> (webhook_signature r = None \<longrightarrow> webhooks env (Some r) s = (Inl AuthenticationError, s))
   \<and> (fst (authenticate_signature env r s) \<noteq> Inr True \<longrightarrow>
        (\<exists>e. fst (webhooks env (Some r) s) = Inl e)
        \<and> (\<exists>cache. snd (webhooks env (Some r) s) = s\<lparr>secret_cache := cache\<rparr>)
        \<and> (\<forall>loads apps.
              webhooks (env\<lparr>json_loads := loads, installed_apps := apps\<rparr>) (Some r) s
              = webhooks env (Some r) s))"
proof (intro conjI allI impI)
  assume "fst (authenticate_signature env r s) = Inr False"
  then show "fst (webhooks env (Some r) s) = Inl AuthenticationError"
    by (simp add: webhooks_not_authenticated)
next
  assume "webhook_signature r = None"
  then show "webhooks env (Some r) s = (Inl AuthenticationError, s)"
    by (simp add: webhooks_def authenticate_signature_def)
next
  assume n: "fst (authenticate_signature env r s) \<noteq> Inr True"
  then show "\<exists>e. fst (webhooks env (Some r) s) = Inl e"
    by (simp add: webhooks_not_authenticated split: sum.splits)
  from n show "\<exists>cache. snd (webhooks env (Some r) s) = s\<lparr>secret_cache := cache\<rparr>"
    by (simp add: webhooks_not_authenticated authenticate_signature_state)
  fix loads apps
  have e: "authenticate_signature (env\<lparr>json_loads := loads, installed_apps := apps\<rparr>) r s
             = authenticate_signature env r s"
    by (rule authenticate_signature_env) simp
  with n have "fst (authenticate_signature (env\<lparr>json_loads := loads, installed_apps := apps\<rparr>) r s)
                 \<noteq> Inr True"
    by simp
  then show "webhooks (env\<lparr>json_loads := loads, installed_apps := apps\<rparr>) (Some r) s
              = webhooks env (Some r) s"
    using n by (simp add: webhooks_not_authenticated e)
qed

text \<open>
  C2 (the code at a header that is not ASCII). The claim has every request whose
  signature does not verify end in an authentication failure. With the secret
  \<^verbatim>\<open>secret\<close> configured, a request whose header is the one character U+00E9 does not
  verify, and \<^verbatim>\<open>webhooks\<close> ends with the \<^verbatim>\<open>TypeError\<close> of the comparison instead of
  \<^verbatim>\<open>AuthenticationError\<close>. No event is dispatched: no record changes and nothing is
  logged; the state differs from the initial one in the cache of the secrets only. A
  header that is ASCII and matches no digest ends in \<^verbatim>\<open>AuthenticationError\<close>.
\<close>

theorem webhooks_non_ascii_signature_raises:
  "webhooks example_env
      (Some \<lparr>get_data = example_body, webhook_signature = Some [CHR 0xE9]\<rparr>) example_state
     = (Inl TypeError, example_state\<lparr>secret_cache := Some [''secret'']\<rparr>)
   \<and> webhooks example_env
      (Some \<lparr>get_data = example_body, webhook_signature = Some ''deadbeef''\<rparr>) example_state
     = (Inl AuthenticationError, example_state\<lparr>secret_cache := Some [''secret'']\<rparr>)"
proof -
  have a: "authenticate_signature example_env
             \<lparr>get_data = example_body, webhook_signature = Some [CHR 0xE9]\<rparr> example_state
           = (Inl TypeError, example_state\<lparr>secret_cache := Some [''secret'']\<rparr>)"
    by (simp add: authenticate_signature_def example_keys compare_digest_def is_ascii_def)
  have b: "authenticate_signature example_env
             \<lparr>get_data = example_body, webhook_signature = Some ''deadbeef''\<rparr> example_state
           = (Inr False, example_state\<lparr>secret_cache := Some [''secret'']\<rparr>)"
    by (simp add: authenticate_signature_def example_keys compare_digest_def is_ascii_def
          example_env_def hexdigest_example_digest)
  show ?thesis
    by (simp add: webhooks_def a b)
qed

text \<open>
  C7 (amended). Without a request object \<^verbatim>\<open>webhooks\<close> returns at once: no value, no
  exception, and the state is untouched.
\<close>

theorem webhooks_without_request: "webhooks env None s = (Inr None, s)"
  by (simp add: webhooks_def)

theorem webhooks_empty_body_counterexample:
  "webhooks example_env (Some \<lparr>get_data = [], webhook_signature = None\<rparr>) example_state
     = (Inl AuthenticationError, example_state)"
  by (simp add: webhooks_def authenticate_signature_def)

text \<open>
  C5. Let the mandate handler find the mandate ids of an event, and let the event's
  action be any string. Then the handler completes, and it sets \<^verbatim>\<open>disabled\<close> of
  every one of these mandates (that has a record) to 0 when the action is one of
  \<^verbatim>\<open>pending_customer_approval\<close>, \<^verbatim>\<open>pending_submission\<close>, \<^verbatim>\<open>submitted\<close>,
  \<^verbatim>\<open>active\<close>, and to 1 for every other string; no other mandate and nothing else in
  the state changes.
\<close>

theorem set_mandate_status_disabled:
  assumes "mandate_ids event = Inr ids"
    and "subscript event ''action'' = Inr (JStr a)"
  shows "fst (set_mandate_status event s) = None
    \<and> (\<forall>m \<in> set ids. m \<in> dom (mandates s) \<longrightarrow>
          mandates (snd (set_mandate_status event s)) m =
            Some (if a \<in> {''pending_customer_approval'', ''pending_submission'',
                            ''submitted'', ''active''} then 0 else 1))
    \<and> (\<forall>m. m \<notin> set ids \<longrightarrow> mandates (snd (set_mandate_status event s)) m = mandates s m)
    \<and> (\<exists>f. snd (set_mandate_status event s) = s\<lparr>mandates := f\<rparr>)"
proof -
  let ?d = "if JStr a = JStr ''pending_customer_approval''
               \<or> JStr a = JStr ''pending_submission''
               \<or> JStr a = JStr ''submitted''
               \<or> JStr a = JStr ''active'' then 0 else (1::int)"
  have r: "set_mandate_status event s = (None, fold (db_set_value_mandate ?d) ids s)"
    using assms by (rule set_mandate_status_ok)
  have d: "?d = (if a \<in> {''pending_customer_approval'', ''pending_submission'',
                            ''submitted'', ''active''} then 0 else 1)"
    by simp
  show ?thesis
    unfolding r fst_conv snd_conv d [symmetric]
    by (simp only: fold_db_set_value_mandate_lookup fold_db_set_value_mandate_frame)
       simp
qed

theorem set_mandate_status_disabled_witness:
  "mandate_ids (JObj [(''resource_type'', JStr ''mandates''), (''action'', JStr ''active''),
                      (''links'', JObj [(''mandate'', JStr ''MD001'')])]) = Inr [JStr ''MD001'']
   \<and> JStr ''MD001'' \<in> dom (mandates example_state)
   \<and> mandates (snd (set_mandate_status
         (JObj [(''resource_type'', JStr ''mandates''), (''action'', JStr ''active''),
                (''links'', JObj [(''mandate'', JStr ''MD001'')])]) example_state))
        (JStr ''MD001'') = Some 0
   \<and> mandates (snd (set_mandate_status
         (JObj [(''resource_type'', JStr ''mandates''), (''action'', JStr ''expired''),
                (''links'', JList [JObj [(''mandate'', JStr ''MD002'')]])]) example_state))
        (JStr ''MD002'') = Some 1"
proof -
  let ?e = "JObj [(''resource_type'', JStr ''mandates''), (''action'', JStr ''active''),
                  (''links'', JObj [(''mandate'', JStr ''MD001'')])]"
  let ?f = "JObj [(''resource_type'', JStr ''mandates''), (''action'', JStr ''expired''),
                  (''links'', JList [JObj [(''mandate'', JStr ''MD002'')]])]"
  have e1: "mandate_ids ?e = Inr [JStr ''MD001'']" by (simp add: mandate_ids_def)
  have e2: "subscript ?e ''action'' = Inr (JStr ''active'')" by simp
  have f1: "mandate_ids ?f = Inr [JStr ''MD002'']" by (simp add: mandate_ids_def)
  have f2: "subscript ?f ''action'' = Inr (JStr ''expired'')" by simp
  have m: "JStr ''MD001'' \<in> dom (mandates example_state)"
    "JStr ''MD002'' \<in> dom (mandates example_state)"
    by (simp_all add: example_state_def)
  from set_mandate_status_disabled [OF e1 e2, of example_state] m
  have a: "mandates (snd (set_mandate_status ?e example_state)) (JStr ''MD001'') = Some 0"
    by simp
  from set_mandate_status_disabled [OF f1 f2, of example_state] m
  have b: "mandates (snd (set_mandate_status ?f example_state)) (JStr ''MD002'') = Some 1"
    by simp
  from e1 m a b show ?thesis by blast
qed

text \<open>
  C10. For a mandate event without a mandate id (\<^verbatim>\<open>links\<close> absent, or a dictionary
  without \<^verbatim>\<open>mandate\<close>, or a list of dictionaries one of which has no \<^verbatim>\<open>mandate\<close>)
  the mandate handler raises \<^verbatim>\<open>KeyError\<close> and writes nothing. The exception leaves
  \<^verbatim>\<open>set_status\<close> and the loop over the batch: the events after it are not processed
  (the outcome is the same whatever follows), and the endpoint ends with \<^verbatim>\<open>KeyError\<close>
  in the state the earlier events left: no log entry, no 200.
\<close>

theorem mandate_event_without_id_aborts:
  assumes "mandate_event_without_id event"
  shows "set_mandate_status event s = (Some KeyError, s)
    \<and> set_status env event s = (Some KeyError, s)
    \<and> (fst (set_status_each env pre s) = None \<longrightarrow>
         set_status_each env (pre @ event # post) s
           = (Some KeyError, snd (set_status_each env pre s)))
    \<and> (fst (authenticate_signature env r s) = Inr True
        \<and> json_loads env (get_data r) = Inr decoded
        \<and> subscript decoded ''events'' = Inr (JList (pre @ event # post))
        \<and> fst (set_status_each env pre (snd (authenticate_signature env r s))) = None \<longrightarrow>
         webhooks env (Some r) s
           = (Inl KeyError, snd (set_status_each env pre (snd (authenticate_signature env r s)))))"
proof -
  have h: "set_mandate_status event s = (Some KeyError, s)" for s
    using assms by (rule set_mandate_status_KeyError)
  have d: "set_status env event s = (Some KeyError, s)" for s
    using assms by (simp add: set_status_mandates h)
  have l: "set_status_each env (pre @ event # post) s
             = (Some KeyError, snd (set_status_each env pre s))"
    if "fst (set_status_each env pre s) = None" for s
  proof (cases "set_status_each env pre s")
    case (Pair x s1)
    with that have "x = None" by simp
    with Pair show ?thesis by (simp add: set_status_each_append d)
  qed
  have w: "webhooks env (Some r) s
           = (Inl KeyError, snd (set_status_each env pre (snd (authenticate_signature env r s))))"
    if "fst (authenticate_signature env r s) = Inr True
        \<and> json_loads env (get_data r) = Inr decoded
        \<and> subscript decoded ''events'' = Inr (JList (pre @ event # post))
        \<and> fst (set_status_each env pre (snd (authenticate_signature env r s))) = None"
  proof -
    from that have "webhooks env (Some r) s =
           (case set_status_each env (pre @ event # post) (snd (authenticate_signature env r s)) of
              (Some e, s2) \<Rightarrow> (Inl e, s2)
            | (None, s2) \<Rightarrow>
                (Inr (Some 200), log_error ''GoCardless Webhook'' [StrOf decoded] s2))"
      by (intro webhooks_authenticated [where batch = "JList (pre @ event # post)"]) simp_all
    with that show ?thesis by (simp add: l)
  qed
  from h d l w show ?thesis by blast
qed

theorem mandate_event_without_id_aborts_witness:
  "mandate_event_without_id (JObj [(''resource_type'', JStr ''mandates''), (''action'', JStr ''active'')])
   \<and> fst (webhooks example_env (Some broken_request) example_state) = Inl KeyError
   \<and> mandates (snd (webhooks example_env (Some broken_request) example_state)) (JStr ''MD001'') = Some 0
   \<and> mandates (snd (webhooks example_env (Some broken_request) example_state)) (JStr ''MD002'') = Some 0
   \<and> error_log (snd (webhooks example_env (Some broken_request) example_state)) = []"
proof -
  let ?e1 = "JObj [(''resource_type'', JStr ''mandates''), (''action'', JStr ''active''),
                   (''links'', JObj [(''mandate'', JStr ''MD001'')])]"
  let ?e2 = "JObj [(''resource_type'', JStr ''mandates''), (''action'', JStr ''active'')]"
  let ?e3 = "JObj [(''resource_type'', JStr ''mandates''), (''action'', JStr ''failed''),
                   (''links'', JObj [(''mandate'', JStr ''MD002'')])]"
  let ?s0 = "example_state\<lparr>secret_cache := Some [''secret'']\<rparr>"
  have e: "mandate_event_without_id ?e2"
    by (simp add: mandate_event_without_id_def)
  have a: "fst (authenticate_signature example_env broken_request example_state) = Inr True"
    "snd (authenticate_signature example_env broken_request example_state) = ?s0"
    by (simp_all add: authenticate_broken_request)
  have j: "json_loads example_env (get_data broken_request) = Inr broken_batch"
    by (simp add: broken_request_def json_loads_broken)
  have b: "subscript broken_batch ''events'' = Inr (JList ([?e1] @ ?e2 # [?e3]))"
    by (simp add: broken_batch_def)
  have p: "set_status_each example_env [?e1] ?s0
             = (None, ?s0\<lparr>mandates := (mandates ?s0)(JStr ''MD001'' \<mapsto> 0)\<rparr>)"
    by (simp add: set_status_def set_mandate_status_def mandate_ids_def
          db_set_value_mandate_def example_state_def)
  from mandate_event_without_id_aborts [OF e, where env = example_env and r = broken_request
      and s = example_state and decoded = broken_batch and pre = "[?e1]" and post = "[?e3]"]
    a j b p
  have "webhooks example_env (Some broken_request) example_state
          = (Inl KeyError, ?s0\<lparr>mandates := (mandates ?s0)(JStr ''MD001'' \<mapsto> 0)\<rparr>)"
    by simp
  with e show ?thesis by (simp add: example_state_def)
qed

text \<open>
  The loop over the batch stops at the first dispatch that raises: what follows it
  plays no part in the outcome. Conversely, a loop that ends with an exception has a
  first event whose dispatch raised it.
\<close>

lemma set_status_each_first_raise:
  assumes "fst (set_status_each env pre s) = None"
    and "fst (set_status env event (snd (set_status_each env pre s))) = Some e"
  shows "set_status_each env (pre @ event # post) s
           = (Some e, snd (set_status env event (snd (set_status_each env pre s))))"
proof (cases "set_status_each env pre s")
  case (Pair x s1)
  with assms(1) have x: "x = None" by simp
  obtain y s2 where d: "set_status env event s1 = (y, s2)"
    by (cases "set_status env event s1")
  with assms(2) Pair have "y = Some e" by simp
  with Pair x d show ?thesis by (simp add: set_status_each_append)
qed

lemma set_status_each_raises:
  "fst (set_status_each env events s) = Some e \<Longrightarrow>
   \<exists>pre event post. events = pre @ event # post
     \<and> fst (set_status_each env pre s) = None
     \<and> set_status env event (snd (set_status_each env pre s))
         = (Some e, snd (set_status_each env events s))"
proof (induction events arbitrary: s)
  case Nil
  then show ?case by simp
next
  case (Cons ev evs)
  obtain x s1 where d: "set_status env ev s = (x, s1)"
    by (cases "set_status env ev s")
  show ?case
  proof (cases x)
    case None
    with d Cons.prems have "fst (set_status_each env evs s1) = Some e" by simp
    then obtain pre event post where p: "evs = pre @ event # post"
      "fst (set_status_each env pre s1) = None"
      "set_status env event (snd (set_status_each env pre s1))
         = (Some e, snd (set_status_each env evs s1))"
      using Cons.IH by blast
    from d None p have "ev # evs = (ev # pre) @ event # post
      \<and> fst (set_status_each env (ev # pre) s) = None
      \<and> set_status env event (snd (set_status_each env (ev # pre) s))
         = (Some e, snd (set_status_each env (ev # evs) s))"
      by simp
    then show ?thesis by blast
  next
    case (Some e')
    with d Cons.prems have "ev # evs = [] @ ev # evs
      \<and> fst (set_status_each env [] s) = None
      \<and> set_status env ev (snd (set_status_each env [] s))
         = (Some e, snd (set_status_each env (ev # evs) s))"
      by simp
    then show ?thesis by blast
  qed
qed

text \<open>
  C6 (amended). Let a request pass the verification and let its body decode to a value
  whose \<^verbatim>\<open>events\<close> entry can be iterated. The endpoint dispatches the events in order.
  If no dispatch raises, all events have been dispatched, the whole batch is then
  appended to the error log and 200 is returned. Otherwise there is a first event whose
  dispatch raises, and its exception ends the request: the state is the one this
  dispatch left, so the events after it are not dispatched, the batch is not appended
  to the log, and 200 is not returned. A batch returns 200 whenever each of its events
  is a dictionary that is neither a mandate event nor a payment of a
  \<^verbatim>\<open>Payment Request\<close> and whose \<^verbatim>\<open>resource_metadata\<close> is absent or a dictionary;
  payout events of this shape are among them, whatever happens inside the payout
  handler.
\<close>

theorem webhooks_authenticated_outcome:
  assumes "fst (authenticate_signature env r s) = Inr True"
    and "json_loads env (get_data r) = Inr decoded"
    and "subscript decoded ''events'' = Inr batch"
    and "iterate batch = Inr events"
  shows "(fst (set_status_each env events (snd (authenticate_signature env r s))) = None \<longrightarrow>
           fst (webhooks env (Some r) s) = Inr (Some 200)
           \<and> snd (webhooks env (Some r) s)
               = (snd (set_status_each env events (snd (authenticate_signature env r s))))
                   \<lparr>error_log :=
                      error_log (snd (set_status_each env events
                                        (snd (authenticate_signature env r s))))
                      @ [(''GoCardless Webhook'', [StrOf decoded])]\<rparr>)
    \<and> (\<forall>pre event post e.
          events = pre @ event # post
          \<and> fst (set_status_each env pre (snd (authenticate_signature env r s))) = None
          \<and> fst (set_status env event
                   (snd (set_status_each env pre (snd (authenticate_signature env r s)))))
              = Some e \<longrightarrow>
          webhooks env (Some r) s
            = (Inl e, snd (set_status env event
                 (snd (set_status_each env pre (snd (authenticate_signature env r s)))))))
    \<and> (fst (set_status_each env events (snd (authenticate_signature env r s))) \<noteq> None \<longrightarrow>
          (\<exists>pre event post e.
             events = pre @ event # post
             \<and> fst (set_status_each env pre (snd (authenticate_signature env r s))) = None
             \<and> fst (set_status env event
                      (snd (set_status_each env pre (snd (authenticate_signature env r s)))))
                 = Some e))
    \<and> (list_all payout_or_skipped events \<longrightarrow>
           fst (webhooks env (Some r) s) = Inr (Some 200))"
proof -
  let ?s1 = "snd (authenticate_signature env r s)"
  have w: "webhooks env (Some r) s =
           (case set_status_each env events ?s1 of
              (Some e, s2) \<Rightarrow> (Inl e, s2)
            | (None, s2) \<Rightarrow>
                (Inr (Some 200), log_error ''GoCardless Webhook'' [StrOf decoded] s2))"
    using assms by (rule webhooks_authenticated)
  obtain x s2 where p: "set_status_each env events ?s1 = (x, s2)"
    by (cases "set_status_each env events ?s1")
  have 1: "fst (set_status_each env events ?s1) = None \<longrightarrow>
           fst (webhooks env (Some r) s) = Inr (Some 200)
           \<and> snd (webhooks env (Some r) s)
               = (snd (set_status_each env events ?s1))
                   \<lparr>error_log := error_log (snd (set_status_each env events ?s1))
                      @ [(''GoCardless Webhook'', [StrOf decoded])]\<rparr>"
    by (simp add: w p log_error_def)
  have 2: "webhooks env (Some r) s
            = (Inl e, snd (set_status env event (snd (set_status_each env pre ?s1))))"
    if "events = pre @ event # post \<and> fst (set_status_each env pre ?s1) = None
        \<and> fst (set_status env event (snd (set_status_each env pre ?s1))) = Some e"
    for pre event post e
  proof -
    from that have "set_status_each env events ?s1
          = (Some e, snd (set_status env event (snd (set_status_each env pre ?s1))))"
      by (simp add: set_status_each_first_raise)
    then show ?thesis by (simp add: w)
  qed
  have 3: "\<exists>pre event post e.
             events = pre @ event # post
             \<and> fst (set_status_each env pre ?s1) = None
             \<and> fst (set_status env event (snd (set_status_each env pre ?s1))) = Some e"
    if "fst (set_status_each env events ?s1) \<noteq> None"
  proof -
    from that obtain e where "fst (set_status_each env events ?s1) = Some e" by auto
    then obtain pre event post where "events = pre @ event # post"
      "fst (set_status_each env pre ?s1) = None"
      "set_status env event (snd (set_status_each env pre ?s1))
         = (Some e, snd (set_status_each env events ?s1))"
      using set_status_each_raises by blast
    then have "events = pre @ event # post
      \<and> fst (set_status_each env pre ?s1) = None
      \<and> fst (set_status env event (snd (set_status_each env pre ?s1))) = Some e"
      by simp
    then show ?thesis by blast
  qed
  have 4: "list_all payout_or_skipped events \<longrightarrow> fst (webhooks env (Some r) s) = Inr (Some 200)"
  proof
    assume "list_all payout_or_skipped events"
    then have "fst (set_status_each env events ?s1) = None"
      by (rule set_status_each_payout_or_skipped)
    with 1 show "fst (webhooks env (Some r) s) = Inr (Some 200)" by simp
  qed
  from 1 2 3 4 show ?thesis by blast
qed

theorem webhooks_authenticated_outcome_witness:
  "fst (authenticate_signature example_env example_request example_state) = Inr True
   \<and> json_loads example_env (get_data example_request) = Inr example_batch
   \<and> fst (webhooks example_env (Some example_request) example_state) = Inr (Some 200)
   \<and> mandates (snd (webhooks example_env (Some example_request) example_state)) (JStr ''MD001'')
       = Some 0
   \<and> error_log (snd (webhooks example_env (Some example_request) example_state))
       = [(''GoCardless Webhook'', [StrOf example_batch])]
   \<and> fst (authenticate_signature example_env broken_request example_state) = Inr True
   \<and> json_loads example_env (get_data broken_request) = Inr broken_batch
   \<and> webhooks example_env (Some broken_request) example_state
       = (Inl KeyError,
          snd (set_status_each example_env
                 [JObj [(''resource_type'', JStr ''mandates''), (''action'', JStr ''active''),
                        (''links'', JObj [(''mandate'', JStr ''MD001'')])]]
                 (example_state\<lparr>secret_cache := Some [''secret'']\<rparr>)))"
proof -
  let ?e1 = "JObj [(''resource_type'', JStr ''mandates''), (''action'', JStr ''active''),
                   (''links'', JObj [(''mandate'', JStr ''MD001'')])]"
  let ?e2 = "JObj [(''resource_type'', JStr ''unknown_future_type'')]"
  let ?s0 = "example_state\<lparr>secret_cache := Some [''secret'']\<rparr>"
  have a: "fst (authenticate_signature example_env example_request example_state) = Inr True"
    "snd (authenticate_signature example_env example_request example_state) = ?s0"
    by (simp_all add: authenticate_example_request)
  have j: "json_loads example_env (get_data example_request) = Inr example_batch"
    by (simp add: example_request_def json_loads_example)
  have b: "subscript example_batch ''events'' = Inr (JList [?e1, ?e2])"
    by (simp add: example_batch_def)
  have i: "iterate (JList [?e1, ?e2]) = Inr [?e1, ?e2]" by simp
  have p: "set_status_each example_env [?e1, ?e2] ?s0
             = (None, ?s0\<lparr>mandates := (mandates ?s0)(JStr ''MD001'' \<mapsto> 0)\<rparr>)"
    by (simp add: set_status_def set_mandate_status_def mandate_ids_def
          db_set_value_mandate_def example_state_def)
  from webhooks_authenticated_outcome [OF a(1) j b i] a(2) p
  have "fst (webhooks example_env (Some example_request) example_state) = Inr (Some 200)"
    "snd (webhooks example_env (Some example_request) example_state)
       = (?s0\<lparr>mandates := (mandates ?s0)(JStr ''MD001'' \<mapsto> 0)\<rparr>)
           \<lparr>error_log := error_log (?s0\<lparr>mandates := (mandates ?s0)(JStr ''MD001'' \<mapsto> 0)\<rparr>)
              @ [(''GoCardless Webhook'', [StrOf example_batch])]\<rparr>"
    by simp_all
  moreover have "error_log example_state = []"
    by (simp add: example_state_def)
  ultimately have good:
    "fst (webhooks example_env (Some example_request) example_state) = Inr (Some 200)"
    "mandates (snd (webhooks example_env (Some example_request) example_state)) (JStr ''MD001'')
       = Some 0"
    "error_log (snd (webhooks example_env (Some example_request) example_state))
       = [(''GoCardless Webhook'', [StrOf example_batch])]"
    by simp_all
  let ?f2 = "JObj [(''resource_type'', JStr ''mandates''), (''action'', JStr ''active'')]"
  let ?f3 = "JObj [(''resource_type'', JStr ''mandates''), (''action'', JStr ''failed''),
                   (''links'', JObj [(''mandate'', JStr ''MD002'')])]"
  have a': "fst (authenticate_signature example_env broken_request example_state) = Inr True"
    "snd (authenticate_signature example_env broken_request example_state) = ?s0"
    by (simp_all add: authenticate_broken_request)
  have j': "json_loads example_env (get_data broken_request) = Inr broken_batch"
    by (simp add: broken_request_def json_loads_broken)
  have b': "subscript broken_batch ''events'' = Inr (JList [?e1, ?f2, ?f3])"
    by (simp add: broken_batch_def)
  have i': "iterate (JList [?e1, ?f2, ?f3]) = Inr [?e1, ?f2, ?f3]" by simp
  have p': "fst (set_status_each example_env [?e1] ?s0) = None"
    by (simp add: set_status_def set_mandate_status_def mandate_ids_def)
  have q': "fst (set_status example_env ?f2 (snd (set_status_each example_env [?e1] ?s0)))
              = Some KeyError"
    by (simp add: set_status_def set_mandate_status_def mandate_ids_def)
  have "webhooks example_env (Some broken_request) example_state
          = (Inl KeyError, snd (set_status example_env ?f2
                                  (snd (set_status_each example_env [?e1] ?s0))))"
    using webhooks_authenticated_outcome [OF a'(1) j' b' i', THEN conjunct2, THEN conjunct1,
        rule_format, of "[?e1]" ?f2 "[?f3]" KeyError] p' q'
    by (simp only: a'(2) append.simps simp_thms)
  moreover have "snd (set_status example_env ?f2 (snd (set_status_each example_env [?e1] ?s0)))
                   = snd (set_status_each example_env [?e1] ?s0)"
    by (simp add: set_status_def set_mandate_status_def mandate_ids_def)
  ultimately have bad: "webhooks example_env (Some broken_request) example_state
          = (Inl KeyError, snd (set_status_each example_env [?e1] ?s0))"
    by simp
  show ?thesis
    by (intro conjI) (fact a(1) j good a'(1) j' bad)+
qed

theorem webhooks_handler_exception_counterexample:
  "fst (authenticate_signature example_env broken_request example_state) = Inr True
   \<and> json_loads example_env (get_data broken_request) = Inr broken_batch
   \<and> fst (webhooks example_env (Some broken_request) example_state) = Inl KeyError
   \<and> error_log (snd (webhooks example_env (Some broken_request) example_state)) = []
   \<and> mandates (snd (webhooks example_env (Some broken_request) example_state)) (JStr ''MD001'')
       = Some 0
   \<and> mandates (snd (webhooks example_env (Some broken_request) example_state)) (JStr ''MD002'')
       = Some 0"
proof -
  let ?e1 = "JObj [(''resource_type'', JStr ''mandates''), (''action'', JStr ''active''),
                   (''links'', JObj [(''mandate'', JStr ''MD001'')])]"
  let ?e2 = "JObj [(''resource_type'', JStr ''mandates''), (''action'', JStr ''active'')]"
  let ?e3 = "JObj [(''resource_type'', JStr ''mandates''), (''action'', JStr ''failed''),
                   (''links'', JObj [(''mandate'', JStr ''MD002'')])]"
  let ?s0 = "example_state\<lparr>secret_cache := Some [''secret'']\<rparr>"
  have g: "get_data broken_request = broken_body"
    by (simp add: broken_request_def)
  have b: "truthy broken_batch"
    "try_bind (subscript broken_batch ''events'') iterate = Inr [?e1, ?e2, ?e3]"
    by (simp_all add: broken_batch_def)
  have p: "set_status_each example_env [?e1, ?e2, ?e3] ?s0
             = (Some KeyError, ?s0\<lparr>mandates := (mandates ?s0)(JStr ''MD001'' \<mapsto> 0)\<rparr>)"
    by (simp add: set_status_def set_mandate_status_def mandate_ids_def
          db_set_value_mandate_def example_state_def)
  have w: "webhooks example_env (Some broken_request) example_state
             = (Inl KeyError, ?s0\<lparr>mandates := (mandates ?s0)(JStr ''MD001'' \<mapsto> 0)\<rparr>)"
    by (simp add: webhooks_def authenticate_broken_request g json_loads_broken b p
          del: set_status_each.simps)
  have e: "error_log example_state = []"
    "mandates example_state (JStr ''MD002'') = Some 0"
    by (simp_all add: example_state_def)
  show ?thesis
    by (simp add: w authenticate_broken_request g json_loads_broken e)
qed

text \<open>
  C9. \<^verbatim>\<open>create_payout_journal\<close> never raises, whatever the collaborators answer, and
  every failure is logged. A failure before the entry is stored (the lookups in the
  event, the settings, the accounts, the API calls, the date, the insertion) leaves the
  state as it was except that the error log has one more entry, titled
  \<^verbatim>\<open>GoCardless Payout Journal Creation Error\<close> and carrying the exception; a failure of
  \<^verbatim>\<open>submit\<close> leaves the draft and the same log entry; without a failure the entry is
  stored as submitted and the log is untouched. For a payout event (a dictionary whose
  \<^verbatim>\<open>resource_metadata\<close> is absent or a dictionary) with ERPNext installed,
  \<^verbatim>\<open>set_status\<close> is this handler, so it never raises either.
\<close>

theorem create_payout_journal_never_raises:
  "fst (create_payout_journal env event s) = None
   \<and> (\<forall>e. build_payout_journal env event = Inl e \<longrightarrow>
         snd (create_payout_journal env event s)
           = s\<lparr>error_log := error_log s
                 @ [(''GoCardless Payout Journal Creation Error'', [StrOfError e])]\<rparr>)
   \<and> (\<forall>je e. build_payout_journal env event = Inr je \<and> insert_journal_entry env je = Some e \<longrightarrow>
         snd (create_payout_journal env event s)
           = s\<lparr>error_log := error_log s
                 @ [(''GoCardless Payout Journal Creation Error'', [StrOfError e])]\<rparr>)
   \<and> (\<forall>je e. build_payout_journal env event = Inr je \<and> insert_journal_entry env je = None
          \<and> submit_journal_entry env je = Some e \<longrightarrow>
         snd (create_payout_journal env event s)
           = s\<lparr>journal_entries := journal_entries s @ [(je, 0)],
                error_log := error_log s
                 @ [(''GoCardless Payout Journal Creation Error'', [StrOfError e])]\<rparr>)
   \<and> (\<forall>je. build_payout_journal env event = Inr je \<and> insert_journal_entry env je = None
          \<and> submit_journal_entry env je = None \<longrightarrow>
         snd (create_payout_journal env event s)
           = s\<lparr>journal_entries := journal_entries s @ [(je, 1)]\<rparr>)
   \<and> (payout_or_skipped event \<longrightarrow> fst (set_status env event s) = None)
   \<and> (payout_or_skipped event
        \<and> dict_get event ''resource_type'' (JObj []) = Inr (JStr ''payouts'')
        \<and> ''erpnext'' \<in> set (installed_apps env) \<longrightarrow>
         set_status env event s = create_payout_journal env event s)"
proof (intro conjI allI impI)
  show "fst (create_payout_journal env event s) = None"
    by (rule create_payout_journal_fst)
next
  fix e
  assume "build_payout_journal env event = Inl e"
  then show "snd (create_payout_journal env event s)
           = s\<lparr>error_log := error_log s
                 @ [(''GoCardless Payout Journal Creation Error'', [StrOfError e])]\<rparr>"
    by (simp add: create_payout_journal_def log_error_def)
next
  fix je e
  assume "build_payout_journal env event = Inr je \<and> insert_journal_entry env je = Some e"
  then show "snd (create_payout_journal env event s)
           = s\<lparr>error_log := error_log s
                 @ [(''GoCardless Payout Journal Creation Error'', [StrOfError e])]\<rparr>"
    by (simp add: create_payout_journal_def log_error_def)
next
  fix je e
  assume "build_payout_journal env event = Inr je \<and> insert_journal_entry env je = None
          \<and> submit_journal_entry env je = Some e"
  then show "snd (create_payout_journal env event s)
           = s\<lparr>journal_entries := journal_entries s @ [(je, 0)],
                error_log := error_log s
                 @ [(''GoCardless Payout Journal Creation Error'', [StrOfError e])]\<rparr>"
    by (simp add: create_payout_journal_def log_error_def)
next
  fix je
  assume "build_payout_journal env event = Inr je \<and> insert_journal_entry env je = None
          \<and> submit_journal_entry env je = None"
  then show "snd (create_payout_journal env event s)
           = s\<lparr>journal_entries := journal_entries s @ [(je, 1)]\<rparr>"
    by (simp add: create_payout_journal_def)
next
  assume "payout_or_skipped event"
  then show "fst (set_status env event s) = None"
    by (rule set_status_payout_or_skipped)
next
  assume "payout_or_skipped event
        \<and> dict_get event ''resource_type'' (JObj []) = Inr (JStr ''payouts'')
        \<and> ''erpnext'' \<in> set (installed_apps env)"
  then show "set_status env event s = create_payout_journal env event s"
    by (rule set_status_payout)
qed

theorem create_payout_journal_never_raises_witness:
  "build_payout_journal (example_env\<lparr>payouts_get := (\<lambda>payout_id. Inl (OtherError ''API error''))\<rparr>)
      payout_event = Inl (OtherError ''API error'')
   \<and> payout_or_skipped payout_event
   \<and> fst (set_status
         (example_env\<lparr>payouts_get := (\<lambda>payout_id. Inl (OtherError ''API error''))\<rparr>)
         payout_event example_state) = None
   \<and> error_log (snd (set_status
         (example_env\<lparr>payouts_get := (\<lambda>payout_id. Inl (OtherError ''API error''))\<rparr>)
         payout_event example_state))
       = [(''GoCardless Payout Journal Creation Error'', [StrOfError (OtherError ''API error'')])]
   \<and> journal_entries (snd (set_status
         (example_env\<lparr>payouts_get := (\<lambda>payout_id. Inl (OtherError ''API error''))\<rparr>)
         payout_event example_state)) = []
   \<and> error_log (snd (set_status example_env payout_event example_state)) = []
   \<and> journal_entries (snd (set_status example_env payout_event example_state))
       = [(payout_journal_entry example_payout (Some ''Bank'') (Some ''Bank Charges'')
             (Some ''GoCardless Clearing'') ''2024-05-01'', 1)]"
proof -
  let ?env = "example_env\<lparr>payouts_get := (\<lambda>payout_id. Inl (OtherError ''API error''))\<rparr>"
  let ?je = "payout_journal_entry example_payout (Some ''Bank'') (Some ''Bank Charges'')
               (Some ''GoCardless Clearing'') ''2024-05-01''"
  have b: "build_payout_journal ?env payout_event = Inl (OtherError ''API error'')"
    by (simp add: build_payout_journal_def payout_event_def example_env_def)
  have p: "payout_or_skipped payout_event"
    by (simp add: payout_or_skipped_def payout_event_def)
  have t: "dict_get payout_event ''resource_type'' (JObj []) = Inr (JStr ''payouts'')"
    by (simp add: payout_event_def)
  have i: "''erpnext'' \<in> set (installed_apps ?env)" "''erpnext'' \<in> set (installed_apps example_env)"
    by (simp_all add: example_env_def)
  have g: "build_payout_journal example_env payout_event = Inr ?je"
    by (simp add: build_payout_journal_def payout_event_def example_env_def example_payout_def)
  have a: "insert_journal_entry example_env ?je = None" "submit_journal_entry example_env ?je = None"
    by (simp_all add: example_env_def)
  have e: "error_log example_state = []" "journal_entries example_state = []"
    by (simp_all add: example_state_def)
  from create_payout_journal_never_raises [of ?env payout_event example_state] b p t i(1)
  have 1: "fst (set_status ?env payout_event example_state) = None"
    "snd (set_status ?env payout_event example_state)
       = example_state\<lparr>error_log := error_log example_state
           @ [(''GoCardless Payout Journal Creation Error'',
               [StrOfError (OtherError ''API error'')])]\<rparr>"
    by simp_all
  from create_payout_journal_never_raises [of example_env payout_event example_state] g a p t i(2)
  have 2: "snd (set_status example_env payout_event example_state)
       = example_state\<lparr>journal_entries := journal_entries example_state @ [(?je, 1)]\<rparr>"
    by simp
  from b p 1 2 e show ?thesis by simp
qed

text \<open>
  C1 (the code at the payout of scenario 4: 10000 minor units, 250 deducted). The
  three lines carry the amounts the claim names: 100 debited to the deposit account,
  2.5 credited to the fees account, 102.5 credited to the payment account. The entry
  is not balanced: the debits sum to 100, the credits to 105.
\<close>

theorem payout_journal_entry_unbalanced:
  "build_payout_journal example_env payout_event
     = Inr (payout_journal_entry example_payout (Some ''Bank'') (Some ''Bank Charges'')
              (Some ''GoCardless Clearing'') ''2024-05-01'')
   \<and> map account (accounts (payout_journal_entry example_payout (Some ''Bank'')
          (Some ''Bank Charges'') (Some ''GoCardless Clearing'') ''2024-05-01''))
       = [Some ''Bank'', Some ''Bank Charges'', Some ''GoCardless Clearing'']
   \<and> map debit (accounts (payout_journal_entry example_payout (Some ''Bank'')
          (Some ''Bank Charges'') (Some ''GoCardless Clearing'') ''2024-05-01''))
       = [100, 0, 0]
   \<and> map credit (accounts (payout_journal_entry example_payout (Some ''Bank'')
          (Some ''Bank Charges'') (Some ''GoCardless Clearing'') ''2024-05-01''))
       = [0, 5 / 2, 205 / 2]
   \<and> total_debit (payout_journal_entry example_payout (Some ''Bank'')
          (Some ''Bank Charges'') (Some ''GoCardless Clearing'') ''2024-05-01'') = 100
   \<and> total_credit (payout_journal_entry example_payout (Some ''Bank'')
          (Some ''Bank Charges'') (Some ''GoCardless Clearing'') ''2024-05-01'') = 105"
  by (simp add: build_payout_journal_def payout_event_def example_env_def example_payout_def
        payout_journal_entry_def total_debit_def total_credit_def Let_def)

text \<open>
  C4 (amended). Let an event with action \<^verbatim>\<open>confirmed\<close> name an existing payment
  request. The first application completes and leaves the status at Paid, calling
  \<^verbatim>\<open>set_as_paid\<close> once unless the status was Paid already. The second application
  completes as well and does not call \<^verbatim>\<open>set_as_paid\<close> again; it is not a no-op: it
  appends the same comment once more, and that is all it does.
\<close>

theorem confirmed_event_twice:
  assumes "dict_get event ''action'' JNull = Inr (JStr ''confirmed'')"
    and "try_bind (dict_get event ''details'' (JObj []))
           (\<lambda>details. dict_get details ''description'' JNull) = Inr description"
    and "try_bind (dict_get event ''links'' (JObj []))
           (\<lambda>links. dict_get links ''payment'' JNull) = Inr payment_id"
    and "try_bind (dict_get event ''resource_metadata'' (JObj []))
           (\<lambda>metadata. dict_get metadata ''reference_document'' JNull) = Inr name"
    and "truthy name"
    and "payment_requests s name = Some doc"
  shows "\<exists>comment. comment \<noteq> []
    \<and> comment_of (JStr ''confirmed'') description payment_id = Inr comment
    \<and> fst (set_payment_request_status env event s) = None
    \<and> doc_status (snd (set_payment_request_status env event s)) name = Some ''Paid''
    \<and> transitions (snd (set_payment_request_status env event s))
        = (if status doc = ''Paid'' then transitions s else transitions s @ [SetAsPaid name])
    \<and> set_payment_request_status env event (snd (set_payment_request_status env event s))
        = (None, add_comment name ''Info'' comment ''GoCardless'' ''help@gocardless.com''
                   (snd (set_payment_request_status env event s)))
    \<and> transitions (snd (set_payment_request_status env event
                           (snd (set_payment_request_status env event s))))
        = transitions (snd (set_payment_request_status env event s))
    \<and> doc_status (snd (set_payment_request_status env event
                          (snd (set_payment_request_status env event s)))) name = Some ''Paid''"
proof -
  obtain comment where c: "comment_of (JStr ''confirmed'') description payment_id = Inr comment"
    "comment \<noteq> []"
    using comment_of_str [of "''confirmed''" description payment_id] by auto
  let ?add = "add_comment name ''Info'' comment ''GoCardless'' ''help@gocardless.com''"
  have step: "set_payment_request_status env event t =
                (None, if doc_status (?add t) name \<noteq> Some ''Paid''
                       then set_as_paid name (?add t) else ?add t)"
    if "payment_requests t name = Some d" for t d
    using set_payment_request_status_found [OF assms(1,2,3) c(1) assms(4,5) that, of env]
    by (simp add: c(2) apply_action_confirmed)
  let ?s1 = "snd (set_payment_request_status env event s)"
  have ds: "doc_status (?add s) name = Some (status doc)"
    using assms(6) by (simp only: add_comment_status) (simp add: doc_status_def)
  have da: "\<exists>d. payment_requests (?add s) name = Some d"
    using assms(6) by (simp add: add_comment_doc)
  have s1: "?s1 = (if status doc \<noteq> ''Paid'' then set_as_paid name (?add s) else ?add s)"
    using step [OF assms(6)] by (simp add: ds)
  have ex: "\<exists>d. payment_requests ?s1 name = Some d"
    using da by (auto simp: s1 set_as_paid_doc)
  have paid: "doc_status ?s1 name = Some ''Paid''"
    using da ds by (auto simp: s1 set_as_paid_status)
  have tr: "transitions ?s1
        = (if status doc = ''Paid'' then transitions s else transitions s @ [SetAsPaid name])"
    by (simp add: s1 set_as_paid_transitions add_comment_transitions)
  from ex obtain d where "payment_requests ?s1 name = Some d" ..
  then have second: "set_payment_request_status env event ?s1 = (None, ?add ?s1)"
    using step [of ?s1 d] paid by (simp add: add_comment_status)
  have "fst (set_payment_request_status env event s) = None"
    using step [OF assms(6)] by simp
  with c paid tr second show ?thesis
    by (auto simp: add_comment_transitions add_comment_status)
qed

theorem confirmed_event_twice_witness:
  "payment_requests example_state (JStr ''PR001'')
     = Some \<lparr>status = ''Initiated'', failed_reason = None, comments = []\<rparr>
   \<and> doc_status (snd (set_payment_request_status example_env confirmed_event example_state))
         (JStr ''PR001'') = Some ''Paid''
   \<and> transitions (snd (set_payment_request_status example_env confirmed_event example_state))
       = [SetAsPaid (JStr ''PR001'')]
   \<and> transitions (snd (set_payment_request_status example_env confirmed_event
         (snd (set_payment_request_status example_env confirmed_event example_state))))
       = [SetAsPaid (JStr ''PR001'')]"
proof -
  have a: "dict_get confirmed_event ''action'' JNull = Inr (JStr ''confirmed'')"
    by (simp add: confirmed_event_def)
  have d: "try_bind (dict_get confirmed_event ''details'' (JObj []))
             (\<lambda>details. dict_get details ''description'' JNull) = Inr JNull"
    by (simp add: confirmed_event_def)
  have l: "try_bind (dict_get confirmed_event ''links'' (JObj []))
             (\<lambda>links. dict_get links ''payment'' JNull) = Inr JNull"
    by (simp add: confirmed_event_def)
  have m: "try_bind (dict_get confirmed_event ''resource_metadata'' (JObj []))
             (\<lambda>metadata. dict_get metadata ''reference_document'' JNull) = Inr (JStr ''PR001'')"
    by (simp add: confirmed_event_def)
  have t: "truthy (JStr ''PR001'')" by simp
  have p: "payment_requests example_state (JStr ''PR001'')
             = Some \<lparr>status = ''Initiated'', failed_reason = None, comments = []\<rparr>"
    by (simp add: example_state_def)
  have e: "transitions example_state = []" by (simp add: example_state_def)
  from confirmed_event_twice [OF a d l m t p, of example_env] p e
  show ?thesis by auto
qed

theorem confirmed_event_twice_counterexample:
  "map_option (\<lambda>d. length (comments d))
     (payment_requests (snd (set_payment_request_status example_env confirmed_event example_state))
        (JStr ''PR001'')) = Some 1
   \<and> map_option (\<lambda>d. length (comments d))
     (payment_requests (snd (set_payment_request_status example_env confirmed_event
         (snd (set_payment_request_status example_env confirmed_event example_state))))
        (JStr ''PR001'')) = Some 2
   \<and> snd (set_payment_request_status example_env confirmed_event
         (snd (set_payment_request_status example_env confirmed_event example_state)))
       \<noteq> snd (set_payment_request_status example_env confirmed_event example_state)"
proof -
  let ?c = "\<lparr>comment_type = ''Info'',
             comment_text = [Lit ''<strong>GoCardless Event: <em>Confirmed<em></strong>''],
             comment_by = ''GoCardless'', comment_email = ''help@gocardless.com''\<rparr>"
  let ?s1 = "example_state
     \<lparr>payment_requests := (payment_requests example_state)
        (JStr ''PR001'' \<mapsto> \<lparr>status = ''Paid'', failed_reason = None, comments = [?c]\<rparr>),
      transitions := [SetAsPaid (JStr ''PR001'')]\<rparr>"
  let ?s2 = "example_state
     \<lparr>payment_requests := (payment_requests example_state)
        (JStr ''PR001'' \<mapsto> \<lparr>status = ''Paid'', failed_reason = None, comments = [?c, ?c]\<rparr>),
      transitions := [SetAsPaid (JStr ''PR001'')]\<rparr>"
  have 1: "set_payment_request_status example_env confirmed_event example_state = (None, ?s1)"
    by (simp add: set_payment_request_status_def confirmed_event_def comment_of_def
          upper_char_def lower_char_def apply_action_def add_comment_def update_doc_def
          doc_status_def set_as_paid_def db_set_status_def example_state_def)
  have 2: "set_payment_request_status example_env confirmed_event ?s1 = (None, ?s2)"
    by (simp add: set_payment_request_status_def confirmed_event_def comment_of_def
          upper_char_def lower_char_def apply_action_def add_comment_def update_doc_def
          doc_status_def set_as_paid_def db_set_status_def example_state_def)
  have 3: "?s2 \<noteq> ?s1"
  proof
    assume "?s2 = ?s1"
    then have "payment_requests ?s2 (JStr ''PR001'') = payment_requests ?s1 (JStr ''PR001'')"
      by (rule arg_cong)
    then show False by simp
  qed
  show ?thesis
    unfolding 1 snd_conv 2 using 3 by simp
qed

text \<open>
  The \<^verbatim>\<open>failed\<close> transition when nothing but \<^verbatim>\<open>KeyError\<close> can be raised by the write:
  for an event that names an existing payment request whose status is not Failed, the
  handler completes and the status is Failed; the description is stored when the table
  has the column and the event has \<^verbatim>\<open>details.description\<close>, otherwise
  \<^verbatim>\<open>failed_reason\<close> keeps its value. No transition of the document is called.
\<close>

lemma failed_event_sets_status:
  assumes "dict_get event ''action'' JNull = Inr (JStr ''failed'')"
    and "try_bind (dict_get event ''details'' (JObj []))
           (\<lambda>details. dict_get details ''description'' JNull) = Inr description"
    and "try_bind (dict_get event ''links'' (JObj []))
           (\<lambda>links. dict_get links ''payment'' JNull) = Inr payment_id"
    and "try_bind (dict_get event ''resource_metadata'' (JObj []))
           (\<lambda>metadata. dict_get metadata ''reference_document'' JNull) = Inr name"
    and "truthy name"
    and "payment_requests s name = Some doc"
    and "status doc \<noteq> ''Failed''"
    and "\<not> has_failed_reason env \<longrightarrow> unknown_field_error env = KeyError"
  shows "fst (set_payment_request_status env event s) = None
    \<and> doc_status (snd (set_payment_request_status env event s)) name = Some ''Failed''
    \<and> map_option failed_reason (payment_requests (snd (set_payment_request_status env event s)) name)
        = Some (case try_bind (subscript event ''details'') (\<lambda>d. subscript d ''description'') of
                  Inr v \<Rightarrow> if has_failed_reason env then Some v else failed_reason doc
                | Inl e \<Rightarrow> failed_reason doc)
    \<and> transitions (snd (set_payment_request_status env event s)) = transitions s"
proof -
  obtain comment where c: "comment_of (JStr ''failed'') description payment_id = Inr comment"
    "comment \<noteq> []"
    using comment_of_str [of "''failed''" description payment_id] by auto
  let ?add = "add_comment name ''Info'' comment ''GoCardless'' ''help@gocardless.com''"
  let ?doc = "doc\<lparr>comments := comments doc @
        [\<lparr>comment_type = ''Info'', comment_text = comment, comment_by = ''GoCardless'',
          comment_email = ''help@gocardless.com''\<rparr>]\<rparr>"
  have r: "set_payment_request_status env event s
             = apply_action env event (JStr ''failed'') name (?add s)"
    using set_payment_request_status_found [OF assms(1,2,3) c(1) assms(4,5,6), of env]
    by (simp add: c(2))
  have d: "payment_requests (?add s) name = Some ?doc"
    using assms(6) by (simp add: add_comment_doc)
  have t: "transitions (?add s) = transitions s"
    by (rule add_comment_transitions)
  from event_description_cases [OF assms(2)]
  consider v where "try_bind (subscript event ''details'') (\<lambda>d. subscript d ''description'') = Inr v"
    | "try_bind (subscript event ''details'') (\<lambda>d. subscript d ''description'') = Inl KeyError"
    by blast
  then show ?thesis
  proof cases
    case 1
    with d t assms(7,8) show ?thesis
      by (cases "has_failed_reason env")
         (simp_all add: r apply_action_def doc_status_def db_set_status_def update_doc_def
            db_set_failed_reason_def Let_def)
  next
    case 2
    with d t assms(7) show ?thesis
      by (simp add: r apply_action_def doc_status_def db_set_status_def update_doc_def Let_def)
  qed
qed

text \<open>
  C8 (the code on a table without the column \<^verbatim>\<open>failed_reason\<close>, where the write is
  refused with the database's own error). The claim has the attempt ignored silently.
  The handler sets the status to Failed and adds its comment, and then the write of
  \<^verbatim>\<open>failed_reason\<close> raises; \<^verbatim>\<open>except KeyError\<close> does not catch the error, which leaves
  the handler and the dispatcher.
\<close>

theorem failed_event_missing_column_raises:
  "\<not> has_failed_reason (example_env\<lparr>unknown_field_error := OtherError ''OperationalError''\<rparr>)
   \<and> map_option status (payment_requests example_state (JStr ''PR001'')) = Some ''Initiated''
   \<and> fst (set_payment_request_status
            (example_env\<lparr>unknown_field_error := OtherError ''OperationalError''\<rparr>)
            failed_event example_state)
       = Some (OtherError ''OperationalError'')
   \<and> fst (set_status
            (example_env\<lparr>unknown_field_error := OtherError ''OperationalError''\<rparr>)
            failed_event example_state)
       = Some (OtherError ''OperationalError'')
   \<and> payment_requests (snd (set_payment_request_status
            (example_env\<lparr>unknown_field_error := OtherError ''OperationalError''\<rparr>)
            failed_event example_state)) (JStr ''PR001'')
       = Some \<lparr>status = ''Failed'', failed_reason = None,
               comments = [\<lparr>comment_type = ''Info'',
                 comment_text = [Lit ''<strong>GoCardless Event: <em>Failed<em></strong>'',
                                 Lit ''<br>'', StrOf (JStr ''Insufficient funds'')],
                 comment_by = ''GoCardless'', comment_email = ''help@gocardless.com''\<rparr>]\<rparr>"
proof -
  let ?env = "example_env\<lparr>unknown_field_error := OtherError ''OperationalError''\<rparr>"
  let ?doc = "\<lparr>status = ''Failed'', failed_reason = None,
               comments = [\<lparr>comment_type = ''Info'',
                 comment_text = [Lit ''<strong>GoCardless Event: <em>Failed<em></strong>'',
                                 Lit ''<br>'', StrOf (JStr ''Insufficient funds'')],
                 comment_by = ''GoCardless'', comment_email = ''help@gocardless.com''\<rparr>]\<rparr>"
  have h: "\<not> has_failed_reason ?env" "unknown_field_error ?env = OtherError ''OperationalError''"
    by (simp_all add: example_env_def)
  have r: "set_payment_request_status ?env failed_event example_state
             = (Some (OtherError ''OperationalError''),
                example_state\<lparr>payment_requests :=
                  (payment_requests example_state)(JStr ''PR001'' \<mapsto> ?doc)\<rparr>)"
    by (simp add: set_payment_request_status_def failed_event_def comment_of_def
          upper_char_def lower_char_def apply_action_def add_comment_def update_doc_def
          doc_status_def db_set_status_def db_set_failed_reason_def h example_state_def Let_def)
  have d: "set_status ?env failed_event example_state
             = set_payment_request_status ?env failed_event example_state"
    by (simp add: r) (simp add: set_status_def failed_event_def r [unfolded failed_event_def])
  have p: "map_option status (payment_requests example_state (JStr ''PR001'')) = Some ''Initiated''"
    by (simp add: example_state_def)
  show ?thesis
    by (simp add: h(1) p d r)
qed

end
